theory Spec2Isabelle
  imports Complex_Main "HOL-Library.Word" "HOL-Library.AList"
begin

unbundle bit_operations_syntax

section \<open>Errors and the byte buffer\<close>

text \<open>
  The program is \<^verbatim>\<open>src/grok4sf2midi.js\<close>: a SoundFont 2 parser and player with a
  Standard MIDI File parser and scheduler. Exceptions of the JavaScript source are values of
  \<open>error\<close>: a \<^verbatim>\<open>DataView\<close> read outside the buffer and a typed array of negative
  length raise \<open>RangeError\<close>, a property access on \<^verbatim>\<open>undefined\<close> raises
  \<open>TypeError\<close>, and \<^verbatim>\<open>throw new Error(msg)\<close> is \<open>Error msg\<close>. A function that can
  throw returns \<open>error + 'a\<close>, with \<open>Inl\<close> for the exception.
\<close>

datatype error = RangeError | TypeError | Error string

text \<open>Sequencing of fallible steps: the first exception ends the computation.\<close>

definition and_then :: "error + 'a \<Rightarrow> ('a \<Rightarrow> error + 'b) \<Rightarrow> error + 'b" where
  "and_then m f = (case m of Inl e \<Rightarrow> Inl e | Inr x \<Rightarrow> f x)"

lemma and_then_cong [fundef_cong]:
  "m = m' \<Longrightarrow> (\<And>x. m' = Inr x \<Longrightarrow> f x = f' x) \<Longrightarrow> and_then m f = and_then m' f'"
  by (simp add: and_then_def split: sum.splits)

lemma and_then_Inl [simp]: "and_then (Inl e) f = Inl e"
  by (simp add: and_then_def)

lemma and_then_Inr [simp]: "and_then (Inr x) f = f x"
  by (simp add: and_then_def)

text \<open>
  An \<^verbatim>\<open>ArrayBuffer\<close> seen through a \<^verbatim>\<open>DataView\<close> is the list of its bytes; a byte is
  a \<open>char\<close>, so that the four-character tags of the file formats are string literals.
  Every read checks its range, as the \<^verbatim>\<open>DataView\<close> accessors do.
\<close>

type_synonym DataView = "char list"

definition byte_at :: "DataView \<Rightarrow> nat \<Rightarrow> nat" where
  "byte_at view i = of_char (view ! i)"

definition getUint8 :: "DataView \<Rightarrow> nat \<Rightarrow> error + nat" where
  "getUint8 view offset =
     (if offset + 1 \<le> length view then Inr (byte_at view offset) else Inl RangeError)"

definition getInt8 :: "DataView \<Rightarrow> nat \<Rightarrow> error + int" where
  "getInt8 view offset =
     (if offset + 1 \<le> length view
      then Inr (let b = int (byte_at view offset) in if b < 128 then b else b - 256)
      else Inl RangeError)"

definition getUint16 :: "DataView \<Rightarrow> nat \<Rightarrow> bool \<Rightarrow> error + nat" where
  "getUint16 view offset littleEndian =
     (if offset + 2 \<le> length view
      then Inr (if littleEndian
                then byte_at view offset + 256 * byte_at view (offset + 1)
                else 256 * byte_at view offset + byte_at view (offset + 1))
      else Inl RangeError)"

definition getInt16 :: "DataView \<Rightarrow> nat \<Rightarrow> bool \<Rightarrow> error + int" where
  "getInt16 view offset littleEndian =
     (if offset + 2 \<le> length view
      then Inr (let u = (if littleEndian
                         then int (byte_at view offset) + 256 * int (byte_at view (offset + 1))
                         else 256 * int (byte_at view offset) + int (byte_at view (offset + 1)))
                in if u < 32768 then u else u - 65536)
      else Inl RangeError)"

definition getUint32 :: "DataView \<Rightarrow> nat \<Rightarrow> bool \<Rightarrow> error + nat" where
  "getUint32 view offset littleEndian =
     (if offset + 4 \<le> length view
      then Inr (if littleEndian
                then byte_at view offset + 256 * (byte_at view (offset + 1)
                     + 256 * (byte_at view (offset + 2) + 256 * byte_at view (offset + 3)))
                else byte_at view (offset + 3) + 256 * (byte_at view (offset + 2)
                     + 256 * (byte_at view (offset + 1) + 256 * byte_at view offset)))
      else Inl RangeError)"

text \<open>
  \<^verbatim>\<open>readString(view, offset, length)\<close>: up to \<open>length\<close> characters, stopping at the
  first zero byte (which is read, and not part of the result).
\<close>

fun readString :: "DataView \<Rightarrow> nat \<Rightarrow> nat \<Rightarrow> error + string" where
  "readString view offset 0 = Inr []"
| "readString view offset (Suc n) =
     and_then (getUint8 view offset)
       (\<lambda>c. if c = 0 then Inr []
            else and_then (readString view (offset + 1) n) (\<lambda>str. Inr (char_of c # str)))"

section \<open>The chunk reader\<close>

text \<open>
  \<^verbatim>\<open>readChunk\<close> returns the object \<^verbatim>\<open>{id, size, offset, end}\<close>; the fields carry the
  prefix \<open>chunk_\<close> here.
\<close>

record Chunk =
  chunk_id :: string
  chunk_size :: nat
  chunk_offset :: nat
  chunk_end :: nat

definition readChunk :: "DataView \<Rightarrow> nat \<Rightarrow> error + Chunk" where
  "readChunk view offset =
     and_then (readString view offset 4) (\<lambda>ident.
     and_then (getUint32 view (offset + 4) True) (\<lambda>sz.
       Inr \<lparr>chunk_id = ident, chunk_size = sz, chunk_offset = offset + 8,
            chunk_end = offset + 8 + sz\<rparr>))"

lemma readChunk_Inr:
  "readChunk view offset = Inr chunk \<Longrightarrow>
     offset + 8 \<le> length view \<and> chunk_offset chunk = offset + 8 \<and>
     chunk_end chunk = offset + 8 + chunk_size chunk \<and>
     getUint32 view (offset + 4) True = Inr (chunk_size chunk)"
  by (auto simp: readChunk_def and_then_def getUint32_def split: sum.splits if_splits)

text \<open>
  The result of \<^verbatim>\<open>parseRIFF\<close> is an object whose properties are either leaves
  \<^verbatim>\<open>{dataOffset, size}\<close> or nested objects of the same kind. An object is an association
  list; the assignment \<^verbatim>\<open>chunks[k] = v\<close> is \<^const>\<open>AList.update\<close>, which replaces the
  value of an existing key and appends a new one.
\<close>

datatype ChunkNode = Leaf (leaf_dataOffset: nat) (leaf_size: nat) | Chunks "(string \<times> ChunkNode) list"

type_synonym chunk_map = "(string \<times> ChunkNode) list"

text \<open>
  The \<^verbatim>\<open>while (offset < end)\<close> loop of \<^verbatim>\<open>parseRIFF\<close>, on its state: the local
  variable \<^verbatim>\<open>offset\<close> and the object \<^verbatim>\<open>chunks\<close> built so far. The recursive call
  for a container starts from an empty object. Every iteration reads a header of eight bytes
  inside the buffer or throws, so the loop ends.
\<close>

function parseRIFF_loop :: "DataView \<Rightarrow> nat \<Rightarrow> nat \<times> chunk_map \<Rightarrow> error + (nat \<times> chunk_map)" where
  "parseRIFF_loop view end' (offset, chunks) =
     (if offset < end' then
        and_then (readChunk view offset) (\<lambda>chunk.
          if chunk_id chunk = ''RIFF'' \<or> chunk_id chunk = ''LIST'' then
            and_then (readString view (chunk_offset chunk) 4) (\<lambda>formType.
            and_then (parseRIFF_loop view (chunk_end chunk) (chunk_offset chunk + 4, [])) (\<lambda>sub.
              parseRIFF_loop view end'
                (chunk_end chunk + chunk_size chunk mod 2,
                 AList.update formType (Chunks (snd sub)) chunks)))
          else
            parseRIFF_loop view end'
              (chunk_end chunk + chunk_size chunk mod 2,
               AList.update (chunk_id chunk) (Leaf (chunk_offset chunk) (chunk_size chunk)) chunks))
      else Inr (offset, chunks))"
  by pat_completeness auto

termination
  by (relation "measure (\<lambda>(view, end', offset, chunks). length view - offset)")
     (auto dest!: readChunk_Inr)

declare parseRIFF_loop.simps [simp del]

definition parseRIFF :: "DataView \<Rightarrow> nat \<Rightarrow> nat \<Rightarrow> error + chunk_map" where
  "parseRIFF view offset end' = and_then (parseRIFF_loop view end' (offset, [])) (\<lambda>st. Inr (snd st))"

section \<open>The SoundFont tables\<close>

text \<open>
  The classes \<^verbatim>\<open>Sample\<close>, \<^verbatim>\<open>Generator\<close>, \<^verbatim>\<open>Zone\<close>, \<^verbatim>\<open>Instrument\<close> and
  \<^verbatim>\<open>Preset\<close>. The fields \<^verbatim>\<open>name\<close>, \<^verbatim>\<open>zones\<close>, \<^verbatim>\<open>program\<close> and \<^verbatim>\<open>bank\<close>
  carry the name of their class, the field \<^verbatim>\<open>end\<close> of a sample is \<open>sample_end\<close>, and
  a key or velocity range \<^verbatim>\<open>{lo, hi}\<close> is a record of its own.
  The field \<^verbatim>\<open>modulators\<close> of a zone, which the source never fills, is left out.
  \<^verbatim>\<open>null\<close> is \<open>None\<close>.
\<close>

record Sample =
  sample_name :: string
  start :: int
  sample_end :: int
  startLoop :: int
  endLoop :: int
  sampleRate :: int
  originalKey :: int
  correction :: int
  sampleLink :: nat
  sampleType :: nat

record Generator =
  op :: nat
  amount :: int

record Range =
  lo :: int
  hi :: int

record Zone =
  generators :: "Generator list"
  keyRange :: Range
  velRange :: Range
  sampleID :: "int option"
  instrumentID :: "int option"

record Instrument =
  inst_name :: string
  inst_zones :: "Zone list"

record Preset =
  preset_name :: string
  preset_program :: nat
  preset_bank :: nat
  preset_zones :: "Zone list"

definition new_Zone :: "Generator list \<Rightarrow> Zone" where
  "new_Zone gens =
     \<lparr>generators = gens, keyRange = \<lparr>lo = 0, hi = 127\<rparr>, velRange = \<lparr>lo = 0, hi = 127\<rparr>,
      sampleID = None, instrumentID = None\<rparr>"

text \<open>\<^verbatim>\<open>{lo: gen.amount & 0xFF, hi: (gen.amount >> 8) & 0xFF}\<close>, on a signed 16-bit amount.\<close>

definition range_of :: "int \<Rightarrow> Range" where
  "range_of a = \<lparr>lo = a AND 0xFF, hi = drop_bit 8 a AND 0xFF\<rparr>"

text \<open>The bodies of the two \<^verbatim>\<open>generators.forEach\<close> of the parser.\<close>

definition inst_zone_gen :: "Zone \<Rightarrow> Generator \<Rightarrow> Zone" where
  "inst_zone_gen zone gen =
     (let z1 = (if op gen = 43 then zone\<lparr>keyRange := range_of (amount gen)\<rparr> else zone);
          z2 = (if op gen = 44 then z1\<lparr>velRange := range_of (amount gen)\<rparr> else z1)
      in if op gen = 53 then z2\<lparr>sampleID := Some (amount gen)\<rparr> else z2)"

definition preset_zone_gen :: "Zone \<Rightarrow> Generator \<Rightarrow> Zone" where
  "preset_zone_gen zone gen =
     (let z1 = (if op gen = 41 then zone\<lparr>instrumentID := Some (amount gen)\<rparr> else zone);
          z2 = (if op gen = 43 then z1\<lparr>keyRange := range_of (amount gen)\<rparr> else z1)
      in if op gen = 44 then z2\<lparr>velRange := range_of (amount gen)\<rparr> else z2)"

section \<open>The SoundFont parser\<close>

text \<open>
  The parser reads properties of the objects that \<^verbatim>\<open>parseRIFF\<close> built. A value that
  may be \<^verbatim>\<open>undefined\<close> is a \<open>ChunkNode option\<close>. Reading a property of
  \<^verbatim>\<open>undefined\<close> throws a \<open>TypeError\<close>; a leaf \<^verbatim>\<open>{dataOffset, size}\<close> has no other
  property; a nested object has the chunks stored in it.
\<close>

definition get_prop :: "ChunkNode option \<Rightarrow> string \<Rightarrow> error + ChunkNode option" where
  "get_prop obj k =
     (case obj of
        None \<Rightarrow> Inl TypeError
      | Some (Leaf d s) \<Rightarrow> Inr None
      | Some (Chunks m) \<Rightarrow> Inr (map_of m k))"

text \<open>
  \<^verbatim>\<open>x.size\<close> and \<^verbatim>\<open>x.dataOffset\<close> are numbers when \<open>x\<close> is a leaf. When \<open>x\<close> is a
  nested object, \<^verbatim>\<open>x.dataOffset\<close> is \<^verbatim>\<open>undefined\<close> (no chunk tag has ten characters)
  and \<^verbatim>\<open>x.size\<close> is \<^verbatim>\<open>undefined\<close> or an object; in the arithmetic of the parser both
  become \<^verbatim>\<open>NaN\<close>, which is \<open>None\<close> here. A \<^verbatim>\<open>NaN\<close> offset given to a \<^verbatim>\<open>DataView\<close>
  accessor or to a typed array is the index 0 (\<^verbatim>\<open>ToIndex\<close>).
\<close>

definition prop_size :: "ChunkNode option \<Rightarrow> error + nat option" where
  "prop_size obj =
     (case obj of
        None \<Rightarrow> Inl TypeError
      | Some (Leaf d s) \<Rightarrow> Inr (Some s)
      | Some (Chunks m) \<Rightarrow> Inr None)"

definition prop_dataOffset :: "ChunkNode option \<Rightarrow> error + nat option" where
  "prop_dataOffset obj =
     (case obj of
        None \<Rightarrow> Inl TypeError
      | Some (Leaf d s) \<Rightarrow> Inr (Some d)
      | Some (Chunks m) \<Rightarrow> Inr None)"

definition js_plus :: "nat option \<Rightarrow> nat \<Rightarrow> nat option" where
  "js_plus x k = map_option (\<lambda>n. n + k) x"

definition ToIndex :: "nat option \<Rightarrow> nat" where
  "ToIndex x = (case x of None \<Rightarrow> 0 | Some n \<Rightarrow> n)"

text \<open>
  \<^verbatim>\<open>x.size / w\<close> is a number that need not be an integer, or \<^verbatim>\<open>NaN\<close>.
  \<open>iterations b\<close> is the number of times the body of
  \<^verbatim>\<open>for (let i = 0; i < b; i++)\<close> runs: the number of natural numbers below \<open>b\<close>,
  none when \<open>b\<close> is \<^verbatim>\<open>NaN\<close>.
\<close>

definition js_div :: "nat option \<Rightarrow> nat \<Rightarrow> real option" where
  "js_div x w = map_option (\<lambda>n. real n / real w) x"

definition js_minus :: "real option \<Rightarrow> real \<Rightarrow> real option" where
  "js_minus x k = map_option (\<lambda>r. r - k) x"

definition iterations :: "real option \<Rightarrow> nat" where
  "iterations b = (case b of None \<Rightarrow> 0 | Some r \<Rightarrow> nat \<lceil>r\<rceil>)"

text \<open>
  Each counting loop of the parser pushes one element per iteration: \<open>for_each\<close> runs
  the body on the indices in order, collects what is pushed, and stops at the first
  exception.
\<close>

fun for_each :: "nat list \<Rightarrow> (nat \<Rightarrow> error + 'a) \<Rightarrow> error + 'a list" where
  "for_each [] body = Inr []"
| "for_each (i # is) body =
     and_then (body i) (\<lambda>x. and_then (for_each is body) (\<lambda>xs. Inr (x # xs)))"

definition for_loop :: "nat \<Rightarrow> (nat \<Rightarrow> error + 'a) \<Rightarrow> error + 'a list" where
  "for_loop n body = for_each [0..<n] body"

text \<open>
  \<^verbatim>\<open>new Int16Array(buffer, byteOffset, length)\<close> is a view of the buffer, kept as its
  byte offset and its length in elements. The constructor throws a \<open>RangeError\<close> when the
  offset is odd or the elements do not fit in the buffer; a fractional length is truncated.
\<close>

definition new_Int16Array :: "DataView \<Rightarrow> nat option \<Rightarrow> real option \<Rightarrow> error + (nat \<times> nat)" where
  "new_Int16Array view byteOffset len =
     (let offset = ToIndex byteOffset;
          newLength = (case len of None \<Rightarrow> 0 | Some r \<Rightarrow> nat \<lfloor>r\<rfloor>)
      in if offset mod 2 \<noteq> 0 then Inl RangeError
         else if offset + newLength * 2 > length view then Inl RangeError
         else Inr (offset, newLength))"

record SoundFontParser =
  buffer_view :: DataView
  riff :: chunk_map
  samples :: "Sample list"
  instruments :: "Instrument list"
  presets :: "Preset list"
  sampleData :: "(nat \<times> nat) option"

text \<open>One iteration of the loop over the sample headers, at \<open>off\<close>.\<close>

definition read_sample :: "DataView \<Rightarrow> nat \<Rightarrow> error + Sample" where
  "read_sample v off =
     and_then (readString v off 20) (\<lambda>name.
     and_then (getUint32 v (off + 20) True) (\<lambda>start.
     and_then (getUint32 v (off + 24) True) (\<lambda>endv.
     and_then (getUint32 v (off + 28) True) (\<lambda>startLoop.
     and_then (getUint32 v (off + 32) True) (\<lambda>endLoop.
     and_then (getUint32 v (off + 36) True) (\<lambda>sampleRate.
     and_then (getUint8 v (off + 40)) (\<lambda>originalKey.
     and_then (getInt8 v (off + 41)) (\<lambda>correction.
     and_then (getUint16 v (off + 42) True) (\<lambda>sampleLink.
     and_then (getUint16 v (off + 44) True) (\<lambda>sampleType.
       Inr \<lparr>sample_name = name, start = int start, sample_end = int endv,
            startLoop = int startLoop, endLoop = int endLoop, sampleRate = int sampleRate,
            originalKey = int originalKey, correction = correction,
            sampleLink = sampleLink, sampleType = sampleType\<rparr>))))))))))"

text \<open>
  The loops over the zones of an instrument or preset and over the generators of a zone
  are written twice in the source, once with the tables \<^verbatim>\<open>ibag\<close> and \<^verbatim>\<open>igen\<close> and
  once with \<^verbatim>\<open>pbag\<close> and \<^verbatim>\<open>pgen\<close>; here they take the two tables and the body of the
  \<^verbatim>\<open>forEach\<close> as arguments. A table is looked at only when an iteration runs.
\<close>

definition read_generator :: "DataView \<Rightarrow> ChunkNode option \<Rightarrow> nat \<Rightarrow> nat \<Rightarrow> error + Generator" where
  "read_generator v gen genNdx g =
     and_then (prop_dataOffset gen) (\<lambda>d.
       let genOff = js_plus d ((genNdx + g) * 4) in
       and_then (getUint16 v (ToIndex genOff) True) (\<lambda>opv.
       and_then (getInt16 v (ToIndex (js_plus genOff 2)) True) (\<lambda>amountv.
         Inr \<lparr>op = opv, amount = amountv\<rparr>)))"

definition read_zone ::
  "DataView \<Rightarrow> ChunkNode option \<Rightarrow> ChunkNode option \<Rightarrow> (Zone \<Rightarrow> Generator \<Rightarrow> Zone) \<Rightarrow>
   nat \<Rightarrow> nat \<Rightarrow> error + Zone" where
  "read_zone v bag gen each bagNdx z =
     and_then (prop_dataOffset bag) (\<lambda>d.
       let bagOff = js_plus d ((bagNdx + z) * 4) in
       and_then (getUint16 v (ToIndex bagOff) True) (\<lambda>genNdx.
       and_then (getUint16 v (ToIndex (js_plus bagOff 2)) True) (\<lambda>modNdx.
       and_then (getUint16 v (ToIndex (js_plus bagOff 4)) True) (\<lambda>nextGenNdx.
         let numGens = int nextGenNdx - int genNdx in
         and_then (for_loop (nat numGens) (read_generator v gen genNdx)) (\<lambda>gens.
           Inr (foldl each (new_Zone gens) gens))))))"

definition read_instrument ::
  "DataView \<Rightarrow> nat option \<Rightarrow> ChunkNode option \<Rightarrow> ChunkNode option \<Rightarrow> nat \<Rightarrow> error + Instrument" where
  "read_instrument v d ibag igen i =
     (let off = ToIndex (js_plus d (i * 22)) in
      and_then (readString v off 20) (\<lambda>name.
      and_then (getUint16 v (off + 20) True) (\<lambda>bagNdx.
      and_then (getUint16 v (off + 20 + 22) True) (\<lambda>nextBagNdx.
        let numZones = int nextBagNdx - int bagNdx in
        and_then (for_loop (nat numZones) (read_zone v ibag igen inst_zone_gen bagNdx)) (\<lambda>zones.
          Inr \<lparr>inst_name = name, inst_zones = zones\<rparr>)))))"

definition read_preset ::
  "DataView \<Rightarrow> nat option \<Rightarrow> ChunkNode option \<Rightarrow> ChunkNode option \<Rightarrow> nat \<Rightarrow> error + Preset" where
  "read_preset v d pbag pgen i =
     (let off = ToIndex (js_plus d (i * 38)) in
      and_then (readString v off 20) (\<lambda>name.
      and_then (getUint16 v (off + 20) True) (\<lambda>program.
      and_then (getUint16 v (off + 22) True) (\<lambda>bank.
      and_then (getUint16 v (off + 24) True) (\<lambda>bagNdx.
      and_then (getUint16 v (off + 24 + 38) True) (\<lambda>nextBagNdx.
        let numZones = int nextBagNdx - int bagNdx in
        and_then (for_loop (nat numZones) (read_zone v pbag pgen preset_zone_gen bagNdx)) (\<lambda>zones.
          Inr \<lparr>preset_name = name, preset_program = program, preset_bank = bank,
               preset_zones = zones\<rparr>)))))))"

text \<open>
  \<^verbatim>\<open>SoundFontParser.parse\<close>, in the order of the source: the check of \<^verbatim>\<open>sfbk\<close>, the
  sample data, the sample headers, the instruments, the presets. The tables \<^verbatim>\<open>imod\<close>
  and \<^verbatim>\<open>pmod\<close> are read from \<^verbatim>\<open>pdta\<close> and not used. The body of a loop over a
  header table runs only when the size of the table is a number, that is when the table
  is a leaf; its data offset is then a number as well.
\<close>

definition parse :: "DataView \<Rightarrow> chunk_map \<Rightarrow> error + SoundFontParser" where
  "parse v r =
     (case map_of r ''sfbk'' of
        None \<Rightarrow> Inl (Error ''Not a valid SF2 file'')
      | Some sfbk \<Rightarrow>
          and_then (get_prop (Some sfbk) ''sdta'') (\<lambda>sdta.
          and_then (get_prop sdta ''smpl'') (\<lambda>smpl.
          and_then (case smpl of
                      None \<Rightarrow> Inr None
                    | Some node \<Rightarrow>
                        and_then (prop_size smpl) (\<lambda>sz.
                        and_then (prop_dataOffset smpl) (\<lambda>d.
                        and_then (new_Int16Array v d (js_div sz 2)) (\<lambda>arr. Inr (Some arr)))))
            (\<lambda>sampleData.
          and_then (get_prop (Some sfbk) ''pdta'') (\<lambda>pdta.
          and_then (get_prop pdta ''shdr'') (\<lambda>shdr.
          and_then (prop_size shdr) (\<lambda>shdr_size.
          and_then (for_loop (iterations (js_div shdr_size 46))
                      (\<lambda>i. and_then (prop_dataOffset shdr) (\<lambda>d.
                             read_sample v (ToIndex (js_plus d (i * 46))))))
            (\<lambda>samples.
          and_then (get_prop pdta ''inst'') (\<lambda>inst.
          and_then (prop_size inst) (\<lambda>inst_size.
          and_then (get_prop pdta ''ibag'') (\<lambda>ibag.
          and_then (get_prop pdta ''igen'') (\<lambda>igen.
          and_then (for_loop (iterations (js_minus (js_div inst_size 22) 1))
                      (\<lambda>i. and_then (prop_dataOffset inst) (\<lambda>d.
                             read_instrument v d ibag igen i)))
            (\<lambda>instruments.
          and_then (get_prop pdta ''phdr'') (\<lambda>phdr.
          and_then (prop_size phdr) (\<lambda>phdr_size.
          and_then (get_prop pdta ''pbag'') (\<lambda>pbag.
          and_then (get_prop pdta ''pgen'') (\<lambda>pgen.
          and_then (for_loop (iterations (js_minus (js_div phdr_size 38) 1))
                      (\<lambda>i. and_then (prop_dataOffset phdr) (\<lambda>d.
                             read_preset v d pbag pgen i)))
            (\<lambda>presets.
            Inr \<lparr>buffer_view = v, riff = r, samples = samples, instruments = instruments,
                 presets = presets, sampleData = sampleData\<rparr>))))))))))))))))))"

text \<open>The constructor: \<^verbatim>\<open>parseRIFF(this.view)\<close> on the whole buffer, then \<^verbatim>\<open>parse()\<close>.\<close>

definition new_SoundFontParser :: "DataView \<Rightarrow> error + SoundFontParser" where
  "new_SoundFontParser v = and_then (parseRIFF v 0 (length v)) (parse v)"

section \<open>Zone resolution\<close>

text \<open>
  Indexing an array with a number that is no index of it (negative or too large) gives
  \<^verbatim>\<open>undefined\<close>: \<open>js_index\<close> is the position, if there is one, and \<open>js_lookup\<close> the
  element.
\<close>

definition js_index :: "'a list \<Rightarrow> int \<Rightarrow> nat option" where
  "js_index xs i = (if 0 \<le> i \<and> i < int (length xs) then Some (nat i) else None)"

definition js_lookup :: "'a list \<Rightarrow> int \<Rightarrow> 'a option" where
  "js_lookup xs i = map_option (\<lambda>n. xs ! n) (js_index xs i)"

text \<open>
  An element of \<^verbatim>\<open>matchingZones\<close> is the object \<^verbatim>\<open>{zone, sample, presetZone}\<close>. Its
  \<^verbatim>\<open>sample\<close> is a reference to an object of the table \<^verbatim>\<open>this.samples\<close>, or
  \<^verbatim>\<open>undefined\<close>: here the position in the table, or \<open>None\<close>, so that a write through
  the reference is a write to the table.
\<close>

record Match =
  match_zone :: Zone
  match_sample :: "nat option"
  match_presetZone :: Zone

definition in_ranges :: "Zone \<Rightarrow> int \<Rightarrow> int \<Rightarrow> bool" where
  "in_ranges zone key velocity \<longleftrightarrow>
     key \<ge> lo (keyRange zone) \<and> key \<le> hi (keyRange zone) \<and>
     velocity \<ge> lo (velRange zone) \<and> velocity \<le> hi (velRange zone)"

text \<open>The inner \<^verbatim>\<open>inst.zones.forEach\<close>: the matches that one preset zone adds.\<close>

definition inst_matches :: "SoundFontParser \<Rightarrow> Zone \<Rightarrow> int \<Rightarrow> int \<Rightarrow> Instrument \<Rightarrow> Match list" where
  "inst_matches p zone key velocity inst =
     concat (map (\<lambda>instZone.
       if in_ranges instZone key velocity \<and> sampleID instZone \<noteq> None
       then [\<lparr>match_zone = instZone,
              match_sample = js_index (samples p) (the (sampleID instZone)),
              match_presetZone = zone\<rparr>]
       else []) (inst_zones inst))"

text \<open>
  The body of the outer \<^verbatim>\<open>preset.zones.forEach\<close>, on the array \<^verbatim>\<open>matchingZones\<close>.
  \<^verbatim>\<open>inst.zones\<close> throws a \<open>TypeError\<close> when \<^verbatim>\<open>this.instruments[zone.instrumentID]\<close>
  is \<^verbatim>\<open>undefined\<close>.
\<close>

definition preset_zone_step ::
  "SoundFontParser \<Rightarrow> int \<Rightarrow> int \<Rightarrow> Match list \<Rightarrow> Zone \<Rightarrow> error + Match list" where
  "preset_zone_step p key velocity matchingZones zone =
     (if in_ranges zone key velocity then
        (case instrumentID zone of
           None \<Rightarrow> Inr matchingZones
         | Some i \<Rightarrow>
             (case js_lookup (instruments p) i of
                None \<Rightarrow> Inl TypeError
              | Some inst \<Rightarrow> Inr (matchingZones @ inst_matches p zone key velocity inst)))
      else Inr matchingZones)"

fun preset_zones_loop ::
  "SoundFontParser \<Rightarrow> int \<Rightarrow> int \<Rightarrow> Match list \<Rightarrow> Zone list \<Rightarrow> error + Match list" where
  "preset_zones_loop p key velocity matchingZones [] = Inr matchingZones"
| "preset_zones_loop p key velocity matchingZones (zone # zones) =
     and_then (preset_zone_step p key velocity matchingZones zone)
       (\<lambda>matchingZones'. preset_zones_loop p key velocity matchingZones' zones)"

text \<open>
  \<^verbatim>\<open>getZonesForNote(preset, key, velocity)\<close>. The caller passes
  \<^verbatim>\<open>this.parser.presets[state.preset]\<close>, which may be \<^verbatim>\<open>undefined\<close>; then
  \<^verbatim>\<open>preset.zones\<close> throws.
\<close>

definition getZonesForNote ::
  "SoundFontParser \<Rightarrow> Preset option \<Rightarrow> int \<Rightarrow> int \<Rightarrow> error + Match list" where
  "getZonesForNote p preset key velocity =
     (case preset of
        None \<Rightarrow> Inl TypeError
      | Some pr \<Rightarrow> preset_zones_loop p key velocity [] (preset_zones pr))"

section \<open>Resolving the parameters of a voice\<close>

text \<open>
  The state of a MIDI channel, \<^verbatim>\<open>{bank, preset, volume, expression, pan, mod,
  pitchBend}\<close>; the fields carry the prefix \<open>ch_\<close>.
\<close>

record ChannelState =
  ch_bank :: nat
  ch_preset :: nat
  ch_volume :: nat
  ch_expression :: nat
  ch_pan :: nat
  ch_mod :: nat
  ch_pitchBend :: int

text \<open>
  \<^verbatim>\<open>effectiveGens\<close> is an object with one property per operator. The two
  \<^verbatim>\<open>forEach\<close> of \<^verbatim>\<open>playNote\<close> run
  \<^verbatim>\<open>effectiveGens[gen.op] = (effectiveGens[gen.op] || 0) + gen.amount\<close>
  over the generators of the instrument zone and then of the preset zone;
  \<^verbatim>\<open>x || 0\<close> is 0 when \<open>x\<close> is \<^verbatim>\<open>undefined\<close> or 0, and \<open>x\<close> otherwise.
\<close>

definition or_zero :: "int option \<Rightarrow> int" where
  "or_zero x = (case x of None \<Rightarrow> 0 | Some v \<Rightarrow> if v = 0 then 0 else v)"

definition add_gen :: "(nat \<times> int) list \<Rightarrow> Generator \<Rightarrow> (nat \<times> int) list" where
  "add_gen eg gen = AList.update (op gen) (or_zero (map_of eg (op gen)) + amount gen) eg"

definition effectiveGens :: "Zone \<Rightarrow> Zone \<Rightarrow> (nat \<times> int) list" where
  "effectiveGens zone presetZone =
     foldl add_gen (foldl add_gen [] (generators zone)) (generators presetZone)"

text \<open>
  The local variables of \<^verbatim>\<open>playNote\<close> that hold the parameters of one voice. They are
  JavaScript numbers, here real numbers; \<^verbatim>\<open>Math.pow(2, x)\<close> is \<open>2 powr x\<close>.
\<close>

record VoiceParams =
  rootKey :: real
  fineTune :: real
  coarseTune :: real
  scaleTune :: real
  atten :: real
  pan :: real
  sampleModes :: real
  reverbSend :: real
  chorusSend :: real
  filterFc :: real
  filterQ :: real
  modLfoToPitch :: real
  vibLfoToPitch :: real
  modEnvToPitch :: real
  modLfoToFilterFc :: real
  modEnvToFilterFc :: real
  modLfoToVolume :: real
  delayVolEnv :: real
  attackVolEnv :: real
  holdVolEnv :: real
  decayVolEnv :: real
  sustainVolEnv :: real
  releaseVolEnv :: real
  delayModEnv :: real
  attackModEnv :: real
  holdModEnv :: real
  decayModEnv :: real
  sustainModEnv :: real
  releaseModEnv :: real
  delayModLfo :: real
  freqModLfo :: real
  delayVibLfo :: real
  freqVibLfo :: real

text \<open>The initial values, lines 326 to 358 of the source.\<close>

definition defaults :: "Sample \<Rightarrow> VoiceParams" where
  "defaults sample =
     \<lparr>rootKey = real_of_int (originalKey sample), fineTune = 0, coarseTune = 0, scaleTune = 100,
      atten = 0, pan = 0, sampleModes = 0, reverbSend = 0, chorusSend = 0,
      filterFc = 13500, filterQ = 0,
      modLfoToPitch = 0, vibLfoToPitch = 0, modEnvToPitch = 0,
      modLfoToFilterFc = 0, modEnvToFilterFc = 0, modLfoToVolume = 0,
      delayVolEnv = 2 powr (- 12000 / 1200), attackVolEnv = 2 powr (- 12000 / 1200),
      holdVolEnv = 2 powr (- 12000 / 1200), decayVolEnv = 2 powr (- 12000 / 1200),
      sustainVolEnv = 0, releaseVolEnv = 2 powr (- 12000 / 1200),
      delayModEnv = 2 powr (- 12000 / 1200), attackModEnv = 2 powr (- 12000 / 1200),
      holdModEnv = 2 powr (- 12000 / 1200), decayModEnv = 2 powr (- 12000 / 1200),
      sustainModEnv = 1000, releaseModEnv = 2 powr (- 12000 / 1200),
      delayModLfo = 2 powr (- 12000 / 1200), freqModLfo = 0,
      delayVibLfo = 2 powr (- 12000 / 1200), freqVibLfo = 0\<rparr>"

text \<open>
  The \<^verbatim>\<open>switch\<close> over the operator, for one property \<open>(k, a)\<close> of
  \<^verbatim>\<open>effectiveGens\<close>. The state is the local variables and the object \<^verbatim>\<open>sample\<close>,
  whose fields the cases 0 to 4, 12, 14 and 18 assign. An operator without a case changes
  nothing.
\<close>

definition apply_gen :: "VoiceParams \<times> Sample \<Rightarrow> nat \<times> int \<Rightarrow> VoiceParams \<times> Sample" where
  "apply_gen st g =
     (let ps = fst st; sample = snd st; k = fst g; a = snd g in
      if k = 0 then (ps, sample\<lparr>start := start sample + a\<rparr>)
      else if k = 1 then (ps, sample\<lparr>sample_end := sample_end sample + a\<rparr>)
      else if k = 2 then (ps, sample\<lparr>startLoop := startLoop sample + a\<rparr>)
      else if k = 3 then (ps, sample\<lparr>endLoop := endLoop sample + a\<rparr>)
      else if k = 4 then (ps, sample\<lparr>start := start sample + a * 32768\<rparr>)
      else if k = 5 then (ps\<lparr>modLfoToPitch := real_of_int a\<rparr>, sample)
      else if k = 6 then (ps\<lparr>vibLfoToPitch := real_of_int a\<rparr>, sample)
      else if k = 7 then (ps\<lparr>modEnvToPitch := real_of_int a\<rparr>, sample)
      else if k = 8 then (ps\<lparr>filterFc := real_of_int a\<rparr>, sample)
      else if k = 9 then (ps\<lparr>filterQ := real_of_int a\<rparr>, sample)
      else if k = 10 then (ps\<lparr>modLfoToFilterFc := real_of_int a\<rparr>, sample)
      else if k = 11 then (ps\<lparr>modEnvToFilterFc := real_of_int a\<rparr>, sample)
      else if k = 12 then (ps, sample\<lparr>sample_end := sample_end sample + a * 32768\<rparr>)
      else if k = 13 then (ps\<lparr>modLfoToVolume := real_of_int a\<rparr>, sample)
      else if k = 14 then (ps, sample\<lparr>startLoop := startLoop sample + a * 32768\<rparr>)
      else if k = 15 then (ps\<lparr>chorusSend := real_of_int a\<rparr>, sample)
      else if k = 16 then (ps\<lparr>reverbSend := real_of_int a\<rparr>, sample)
      else if k = 17 then (ps\<lparr>pan := real_of_int a\<rparr>, sample)
      else if k = 18 then (ps, sample\<lparr>endLoop := endLoop sample + a * 32768\<rparr>)
      else if k = 21 then (ps\<lparr>delayModLfo := 2 powr (real_of_int a / 1200)\<rparr>, sample)
      else if k = 22 then (ps\<lparr>freqModLfo := real_of_int a\<rparr>, sample)
      else if k = 23 then (ps\<lparr>delayVibLfo := 2 powr (real_of_int a / 1200)\<rparr>, sample)
      else if k = 24 then (ps\<lparr>freqVibLfo := real_of_int a\<rparr>, sample)
      else if k = 25 then (ps\<lparr>delayModEnv := 2 powr (real_of_int a / 1200)\<rparr>, sample)
      else if k = 26 then (ps\<lparr>attackModEnv := 2 powr (real_of_int a / 1200)\<rparr>, sample)
      else if k = 27 then (ps\<lparr>holdModEnv := 2 powr (real_of_int a / 1200)\<rparr>, sample)
      else if k = 28 then (ps\<lparr>decayModEnv := 2 powr (real_of_int a / 1200)\<rparr>, sample)
      else if k = 29 then (ps\<lparr>sustainModEnv := real_of_int a\<rparr>, sample)
      else if k = 30 then (ps\<lparr>releaseModEnv := 2 powr (real_of_int a / 1200)\<rparr>, sample)
      else if k = 33 then (ps\<lparr>delayVolEnv := 2 powr (real_of_int a / 1200)\<rparr>, sample)
      else if k = 34 then (ps\<lparr>attackVolEnv := 2 powr (real_of_int a / 1200)\<rparr>, sample)
      else if k = 35 then (ps\<lparr>holdVolEnv := 2 powr (real_of_int a / 1200)\<rparr>, sample)
      else if k = 36 then (ps\<lparr>decayVolEnv := 2 powr (real_of_int a / 1200)\<rparr>, sample)
      else if k = 37 then (ps\<lparr>sustainVolEnv := real_of_int a\<rparr>, sample)
      else if k = 38 then (ps\<lparr>releaseVolEnv := 2 powr (real_of_int a / 1200)\<rparr>, sample)
      else if k = 48 then (ps\<lparr>atten := atten ps + real_of_int a / 10\<rparr>, sample)
      else if k = 51 then (ps\<lparr>coarseTune := real_of_int a\<rparr>, sample)
      else if k = 52 then (ps\<lparr>fineTune := real_of_int a\<rparr>, sample)
      else if k = 54 then (ps\<lparr>sampleModes := real_of_int a\<rparr>, sample)
      else if k = 56 then (ps\<lparr>scaleTune := real_of_int a\<rparr>, sample)
      else if k = 58 then (ps\<lparr>rootKey := real_of_int a\<rparr>, sample)
      else (ps, sample))"

text \<open>
  \<^verbatim>\<open>Object.keys(effectiveGens).forEach\<close> visits the properties whose names are
  integers in ascending order of the integers.
\<close>

definition apply_generators :: "VoiceParams \<times> Sample \<Rightarrow> (nat \<times> int) list \<Rightarrow> VoiceParams \<times> Sample" where
  "apply_generators st eg = foldl apply_gen st (sort_key fst eg)"

text \<open>The default modulators, lines 409 to 414.\<close>

definition default_modulators :: "int \<Rightarrow> ChannelState \<Rightarrow> VoiceParams \<Rightarrow> VoiceParams" where
  "default_modulators velocity state ps =
     (let p1 = ps\<lparr>atten := atten ps + 96 * (1 - (real_of_int velocity / 127) ^ 2)\<rparr>;
          p2 = p1\<lparr>filterFc := filterFc p1 + - 2400 * (1 - real_of_int velocity / 127)\<rparr>;
          p3 = p2\<lparr>vibLfoToPitch := vibLfoToPitch p2 + 50 * (real (ch_mod state) / 127)\<rparr>;
          p4 = p3\<lparr>atten := atten p3 + 96 * (1 - real (ch_volume state) / 127)\<rparr>;
          p5 = p4\<lparr>atten := atten p4 + 96 * (1 - real (ch_expression state) / 127)\<rparr>
      in p5\<lparr>pan := pan p5 + 1000 * (real (ch_pan state) / 127 - 0.5)\<rparr>)"

text \<open>
  The time fixes, lines 418 to 421: two assignments, and the comment
  \<^verbatim>\<open>// etc for others\<close>.
\<close>

definition minTime :: real where
  "minTime = 0.001"

definition time_fixes :: "VoiceParams \<Rightarrow> VoiceParams" where
  "time_fixes ps =
     (let p1 = ps\<lparr>delayVolEnv := max minTime (delayVolEnv ps)\<rparr>
      in p1\<lparr>attackVolEnv := max minTime (attackVolEnv p1)\<rparr>)"

text \<open>
  Lines 322 to 421 for one match: the parameters of the voice, and the object \<^verbatim>\<open>sample\<close>
  as the \<^verbatim>\<open>switch\<close> leaves it.
\<close>

definition resolve_voice ::
  "Sample \<Rightarrow> Zone \<Rightarrow> Zone \<Rightarrow> int \<Rightarrow> ChannelState \<Rightarrow> VoiceParams \<times> Sample" where
  "resolve_voice sample zone presetZone velocity state =
     (let st = apply_generators (defaults sample, sample) (effectiveGens zone presetZone)
      in (time_fixes (default_modulators velocity state (fst st)), snd st))"

section \<open>The sample buffer of a voice\<close>

text \<open>
  Lines 424 to 457 copy the sample data of the voice into one or two arrays of numbers.
  \<^verbatim>\<open>this.parser.sampleData[k]\<close> throws a \<open>TypeError\<close> when the bank has no sample
  data (\<^verbatim>\<open>null\<close>); otherwise it is element \<open>k\<close> of the 16-bit array, read from the
  buffer in little-endian order, or \<^verbatim>\<open>undefined\<close> when \<open>k\<close> is no index of the array,
  and the quotient by 32768 that is stored is then \<^verbatim>\<open>NaN\<close> (\<open>None\<close>).
\<close>

definition int16_at :: "DataView \<Rightarrow> nat \<Rightarrow> int" where
  "int16_at v i =
     (let u = int (byte_at v i) + 256 * int (byte_at v (i + 1))
      in if u < 32768 then u else u - 65536)"

definition sample_value :: "SoundFontParser \<Rightarrow> int \<Rightarrow> error + real option" where
  "sample_value p k =
     (case sampleData p of
        None \<Rightarrow> Inl TypeError
      | Some arr \<Rightarrow>
          Inr (if 0 \<le> k \<and> k < int (snd arr)
               then Some (real_of_int (int16_at (buffer_view p) (fst arr + 2 * nat k)) / 32768)
               else None))"

text \<open>
  \<^verbatim>\<open>new Float32Array(length)\<close> throws a \<open>RangeError\<close> for a negative length. An
  allocation that the engine refuses for lack of memory is not modelled.
\<close>

definition new_Float32Array :: "int \<Rightarrow> error + nat" where
  "new_Float32Array len = (if len < 0 then Inl RangeError else Inr (nat len))"

text \<open>
  The local variables that the lines leave for the construction of the audio buffer;
  \<^verbatim>\<open>rightData\<close> stays \<^verbatim>\<open>undefined\<close> (\<open>None\<close>) for a voice with one channel.
\<close>

record VoiceBuffer =
  numChannels :: nat
  isStereo :: bool
  leftData :: "real option list"
  rightData :: "real option list option"
  leftLoopStart :: int
  leftLoopEnd :: int

text \<open>
  Lines 427 to 434: for a sample whose type marks it as linked, the left and the right
  sample of the pair, when their types are 4 and 2. \<^verbatim>\<open>leftSample.sampleType\<close> and
  \<^verbatim>\<open>rightSample.sampleType\<close> throw a \<open>TypeError\<close> when the link leads outside the
  sample table; the right sample is looked at only when the left one has type 4.
\<close>

definition stereo_pair :: "SoundFontParser \<Rightarrow> Sample \<Rightarrow> error + (Sample \<times> Sample) option" where
  "stereo_pair p sample =
     (if sampleType sample AND 8 \<noteq> 0 \<or> sampleType sample = 2 \<or> sampleType sample = 4 then
        (let other = js_lookup (samples p) (int (sampleLink sample));
             leftSample = (if sampleType sample = 2 then other else Some sample);
             rightSample = (if sampleType sample = 2 then Some sample else other)
         in case leftSample of
              None \<Rightarrow> Inl TypeError
            | Some l \<Rightarrow>
                if sampleType l = 4 then
                  (case rightSample of
                     None \<Rightarrow> Inl TypeError
                   | Some r \<Rightarrow> if sampleType r = 2 then Inr (Some (l, r)) else Inr None)
                else Inr None)
      else Inr None)"

text \<open>
  Lines 435 to 457, for the object \<^verbatim>\<open>sample\<close> as the \<^verbatim>\<open>switch\<close> left it and the
  table that holds it.
\<close>

definition build_buffer :: "SoundFontParser \<Rightarrow> Sample \<Rightarrow> error + VoiceBuffer" where
  "build_buffer p sample =
     and_then (stereo_pair p sample) (\<lambda>pair.
       case pair of
         Some (leftSample, rightSample) \<Rightarrow>
           (let len = min (sample_end leftSample - start leftSample)
                          (sample_end rightSample - start rightSample)
            in and_then (new_Float32Array len) (\<lambda>n.
               and_then (new_Float32Array len) (\<lambda>n'.
               and_then (for_loop n (\<lambda>i.
                           and_then (sample_value p (start leftSample + int i)) (\<lambda>l.
                           and_then (sample_value p (start rightSample + int i)) (\<lambda>r.
                             Inr (l, r))))) (\<lambda>frames.
                 Inr \<lparr>numChannels = 2, isStereo = True,
                      leftData = map fst frames, rightData = Some (map snd frames),
                      leftLoopStart = startLoop leftSample - start leftSample,
                      leftLoopEnd = endLoop leftSample - start leftSample\<rparr>))))
       | None \<Rightarrow>
           (let len = sample_end sample - start sample
            in and_then (new_Float32Array len) (\<lambda>n.
               and_then (for_loop n (\<lambda>i. sample_value p (start sample + int i))) (\<lambda>frames.
                 Inr \<lparr>numChannels = 1, isStereo = False,
                      leftData = frames, rightData = None,
                      leftLoopStart = startLoop sample - start sample,
                      leftLoopEnd = endLoop sample - start sample\<rparr>))))"

section \<open>Triggering a note\<close>

text \<open>
  The rest of the loop body of \<^verbatim>\<open>playNote\<close> (lines 458 to 567) creates the audio buffer
  and the nodes of the Web Audio graph and schedules their parameters. It reads the
  resolved parameters, the sample buffer and the sample, and assigns nothing of the parser;
  every exception of these lines is thrown by a call of the audio backend. The audio
  backend is outside the program, so this part is a parameter: a function from what the
  lines read to the \<^verbatim>\<open>stop\<close> closure of the voice (of a type \<open>'v\<close>), or to the
  exception of the backend. Times are numbers that may fail to be finite (\<open>None\<close>).
\<close>

type_synonym 'v backend =
  "SoundFontParser \<Rightarrow> VoiceParams \<Rightarrow> VoiceBuffer \<Rightarrow> nat \<Rightarrow> int \<Rightarrow> int \<Rightarrow> real option \<Rightarrow>
   ChannelState \<Rightarrow> error + 'v"

text \<open>
  The loop \<^verbatim>\<open>for (const {sample, zone, presetZone} of zones)\<close>, on the parser (whose
  sample table the loop body writes) and the array \<^verbatim>\<open>stopFunctions\<close>. With an
  \<^verbatim>\<open>undefined\<close> sample, \<^verbatim>\<open>sample.originalKey\<close> throws before anything is written.
  The parser is returned also when the loop throws: what was written stays written.
\<close>

fun play_loop ::
  "'v backend \<Rightarrow> int \<Rightarrow> int \<Rightarrow> real option \<Rightarrow> ChannelState \<Rightarrow>
   SoundFontParser \<Rightarrow> 'v list \<Rightarrow> Match list \<Rightarrow> (error + 'v list) \<times> SoundFontParser" where
  "play_loop backend key velocity startTime state p stopFunctions [] = (Inr stopFunctions, p)"
| "play_loop backend key velocity startTime state p stopFunctions (m # ms) =
     (case match_sample m of
        None \<Rightarrow> (Inl TypeError, p)
      | Some si \<Rightarrow>
          (let r = resolve_voice (samples p ! si) (match_zone m) (match_presetZone m) velocity state;
               p' = p\<lparr>samples := (samples p)[si := snd r]\<rparr>
           in case build_buffer p' (snd r) of
                Inl e \<Rightarrow> (Inl e, p')
              | Inr buffer \<Rightarrow>
                  (case backend p' (fst r) buffer si key velocity startTime state of
                     Inl e \<Rightarrow> (Inl e, p')
                   | Inr stop \<Rightarrow>
                       play_loop backend key velocity startTime state p'
                         (stopFunctions @ [stop]) ms)))"

text \<open>
  \<^verbatim>\<open>playNote(key, velocity, startTime, state)\<close>. The closure it returns calls the
  \<^verbatim>\<open>stop\<close> closures of its voices in order: it is the list of them, empty for the
  closure \<^verbatim>\<open>() => { }\<close> of a note without zones.
\<close>

definition playNote ::
  "'v backend \<Rightarrow> SoundFontParser \<Rightarrow> int \<Rightarrow> int \<Rightarrow> real option \<Rightarrow> ChannelState \<Rightarrow>
   (error + 'v list) \<times> SoundFontParser" where
  "playNote backend p key velocity startTime state =
     (case getZonesForNote p (js_lookup (presets p) (int (ch_preset state))) key velocity of
        Inl e \<Rightarrow> (Inl e, p)
      | Inr zones \<Rightarrow>
          if length zones = 0 then (Inr [], p)
          else play_loop backend key velocity startTime state p [] zones)"

section \<open>The MIDI file parser\<close>

text \<open>
  \<^verbatim>\<open>value << 7\<close> converts its left operand to a signed 32-bit integer, shifts, and
  yields a signed 32-bit integer; the addition that follows is an addition of numbers.
\<close>

definition js_shl :: "int \<Rightarrow> nat \<Rightarrow> int" where
  "js_shl x n = sint (push_bit (n mod 32) (word_of_int x :: 32 word))"

text \<open>
  \<^verbatim>\<open>readVLQ\<close>: the \<^verbatim>\<open>while (true)\<close> loop on its variables \<^verbatim>\<open>value\<close> and
  \<^verbatim>\<open>bytes\<close>. It leaves by \<^verbatim>\<open>break\<close> at a byte without the high bit, or by the
  \<open>RangeError\<close> of a read past the buffer.
\<close>

function readVLQ_loop :: "DataView \<Rightarrow> nat \<Rightarrow> int \<Rightarrow> nat \<Rightarrow> error + (int \<times> nat)" where
  "readVLQ_loop view offset val bytes =
     and_then (getUint8 view (offset + bytes)) (\<lambda>byte.
       if byte AND 0x80 = 0 then Inr (js_shl val 7 + int (byte AND 0x7F), bytes + 1)
       else readVLQ_loop view offset (js_shl val 7 + int (byte AND 0x7F)) (bytes + 1))"
  by pat_completeness auto
termination
  by (relation "measure (\<lambda>(view, offset, val, bytes). length view - (offset + bytes))")
     (auto simp: getUint8_def split: if_splits)

declare readVLQ_loop.simps [simp del]

definition readVLQ :: "DataView \<Rightarrow> nat \<Rightarrow> error + (int \<times> nat)" where
  "readVLQ view offset = readVLQ_loop view offset 0 0"

text \<open>
  The events of a track. An event object has \<^verbatim>\<open>delta\<close> and \<^verbatim>\<open>status\<close> and, by the
  branch of \<^verbatim>\<open>parseMIDI\<close> that built it, either \<^verbatim>\<open>metaType\<close> and \<^verbatim>\<open>data\<close> (a meta
  event), or \<^verbatim>\<open>data\<close> (system exclusive), or \<^verbatim>\<open>channel\<close>, \<^verbatim>\<open>type\<close>,
  \<^verbatim>\<open>param1\<close> and, unless the type is \<open>0xC\<close> or \<open>0xD\<close>, \<^verbatim>\<open>param2\<close>. A property that
  the branch did not set is \<^verbatim>\<open>undefined\<close> and equal to no number.
\<close>

datatype EventBody =
    Meta nat "nat list"
  | SysEx "nat list"
  | Voice1 nat nat nat
  | Voice2 nat nat nat nat

record Event =
  ev_delta :: int
  ev_status :: nat
  ev_body :: EventBody

text \<open>
  \<^verbatim>\<open>new Uint8Array(len.value)\<close> and the loop that fills it. A negative length throws a
  \<open>RangeError\<close>.
\<close>

definition read_data :: "DataView \<Rightarrow> nat \<Rightarrow> int \<Rightarrow> error + nat list" where
  "read_data view offset len =
     (if len < 0 then Inl RangeError
      else for_loop (nat len) (\<lambda>j. getUint8 view (offset + j)))"

text \<open>
  One iteration of the \<^verbatim>\<open>while (offset < trackEnd)\<close> loop: the event, the offset after
  it, and the running status. A status byte below \<open>0x80\<close> is not consumed and the running
  status stands for it.
\<close>

definition read_event :: "DataView \<Rightarrow> nat \<Rightarrow> nat \<Rightarrow> error + (Event \<times> nat \<times> nat)" where
  "read_event view offset runningStatus =
     and_then (readVLQ view offset) (\<lambda>delta.
     and_then (getUint8 view (offset + snd delta)) (\<lambda>byte.
       let status = (if byte < 0x80 then runningStatus else byte);
           off = (if byte < 0x80 then offset + snd delta else offset + snd delta + 1)
       in
       if status = 0xFF then
         and_then (getUint8 view off) (\<lambda>type.
         and_then (readVLQ view (off + 1)) (\<lambda>len.
         and_then (read_data view (off + 1 + snd len) (fst len)) (\<lambda>data.
           Inr (\<lparr>ev_delta = fst delta, ev_status = status, ev_body = Meta type data\<rparr>,
                off + 1 + snd len + nat (fst len), status))))
       else if status = 0xF0 \<or> status = 0xF7 then
         and_then (readVLQ view off) (\<lambda>len.
         and_then (read_data view (off + snd len) (fst len)) (\<lambda>data.
           Inr (\<lparr>ev_delta = fst delta, ev_status = status, ev_body = SysEx data\<rparr>,
                off + snd len + nat (fst len), status)))
       else
         (let channel = status AND 0x0F; type = drop_bit 4 status in
          if type = 0xC \<or> type = 0xD then
            and_then (getUint8 view off) (\<lambda>param1.
              Inr (\<lparr>ev_delta = fst delta, ev_status = status,
                    ev_body = Voice1 channel type param1\<rparr>, off + 1, status))
          else
            and_then (getUint8 view off) (\<lambda>param1.
            and_then (getUint8 view (off + 1)) (\<lambda>param2.
              Inr (\<lparr>ev_delta = fst delta, ev_status = status,
                    ev_body = Voice2 channel type param1 param2\<rparr>, off + 2, status))))))"

lemma readVLQ_loop_bytes:
  "readVLQ_loop view offset val bytes = Inr r \<Longrightarrow> bytes < snd r \<and> offset + snd r \<le> length view"
proof (induction view offset val bytes rule: readVLQ_loop.induct)
  case (1 view offset val bytes)
  from "1.prems" obtain byte where byte: "getUint8 view (offset + bytes) = Inr byte"
    by (subst (asm) readVLQ_loop.simps) (cases "getUint8 view (offset + bytes)", simp_all)
  then have inside: "offset + bytes < length view"
    by (simp add: getUint8_def split: if_splits)
  show ?case
  proof (cases "byte AND 0x80 = 0")
    case True
    with "1.prems" byte inside show ?thesis
      by (subst (asm) readVLQ_loop.simps) auto
  next
    case False
    with "1.prems" byte have
      "readVLQ_loop view offset (js_shl val 7 + int (byte AND 0x7F)) (bytes + 1) = Inr r"
      by (subst (asm) readVLQ_loop.simps) simp
    from "1.IH" [OF byte False this] show ?thesis by simp
  qed
qed

lemma read_event_advances:
  assumes "read_event view offset runningStatus = Inr r"
  shows "offset < fst (snd r) \<and> offset < length view"
proof -
  from assms obtain delta where delta: "readVLQ view offset = Inr delta"
    by (cases "readVLQ view offset") (simp_all add: read_event_def)
  from readVLQ_loop_bytes [OF delta [unfolded readVLQ_def]]
  have pos: "0 < snd delta" and inside: "offset + snd delta \<le> length view" by simp_all
  from assms delta pos have "offset < fst (snd r)"
    by (cases "getUint8 view (offset + snd delta)")
       (auto simp: read_event_def Let_def and_then_def split: if_splits sum.splits)
  with pos inside show ?thesis by simp
qed

text \<open>
  The loop over the events of a track, on \<^verbatim>\<open>offset\<close>, \<^verbatim>\<open>runningStatus\<close> and the
  array \<^verbatim>\<open>track\<close>. Every event consumes at least the byte of its delta time, inside the
  buffer, so the loop ends.
\<close>

function read_track ::
  "DataView \<Rightarrow> nat \<Rightarrow> nat \<Rightarrow> nat \<Rightarrow> Event list \<Rightarrow> error + Event list" where
  "read_track view trackEnd offset runningStatus track =
     (if offset < trackEnd then
        and_then (read_event view offset runningStatus) (\<lambda>r.
          read_track view trackEnd (fst (snd r)) (snd (snd r)) (track @ [fst r]))
      else Inr track)"
  by pat_completeness auto
termination
  by (relation "measure (\<lambda>(view, trackEnd, offset, runningStatus, track). length view - offset)")
     (auto dest!: read_event_advances)

declare read_track.simps [simp del]

text \<open>
  The loop over the tracks, on the number of tracks left, \<^verbatim>\<open>offset\<close> and the array
  \<^verbatim>\<open>tracks\<close>. After a track the offset is the declared end of the track.
\<close>

fun read_tracks :: "DataView \<Rightarrow> nat \<Rightarrow> nat \<Rightarrow> Event list list \<Rightarrow> error + Event list list" where
  "read_tracks view 0 offset tracks = Inr tracks"
| "read_tracks view (Suc n) offset tracks =
     and_then (readString view offset 4) (\<lambda>tag.
       if tag \<noteq> ''MTrk'' then Inl (Error ''Bad track'')
       else
         and_then (getUint32 view (offset + 4) False) (\<lambda>len.
         and_then (read_track view (offset + 8 + len) (offset + 8) 0 []) (\<lambda>track.
           read_tracks view n (offset + 8 + len) (tracks @ [track]))))"

record Midi =
  midi_format :: nat
  midi_division :: nat
  midi_tracks :: "Event list list"

definition parseMIDI :: "DataView \<Rightarrow> error + Midi" where
  "parseMIDI view =
     and_then (readString view 0 4) (\<lambda>tag.
       if tag \<noteq> ''MThd'' then Inl (Error ''Not a MIDI file'')
       else
         and_then (getUint16 view 8 False) (\<lambda>format.
         and_then (getUint16 view 10 False) (\<lambda>ntracks.
         and_then (getUint16 view 12 False) (\<lambda>division.
         and_then (read_tracks view ntracks 14 []) (\<lambda>tracks.
           Inr \<lparr>midi_format = format, midi_division = division, midi_tracks = tracks\<rparr>)))))"

section \<open>The scheduler\<close>

text \<open>
  \<^verbatim>\<open>playMIDI\<close> first gives every event its absolute tick, track by track, and sorts the
  events of all tracks by tick; the sort of an array is stable. An element of
  \<^verbatim>\<open>events\<close> is the pair of the tick and the event.
\<close>

fun with_ticks :: "int \<Rightarrow> Event list \<Rightarrow> (int \<times> Event) list" where
  "with_ticks tick [] = []"
| "with_ticks tick (ev # evs) = (tick + ev_delta ev, ev) # with_ticks (tick + ev_delta ev) evs"

definition timeline :: "Midi \<Rightarrow> (int \<times> Event) list" where
  "timeline midi = sort_key fst (concat (map (with_ticks 0) (midi_tracks midi)))"

text \<open>
  The variables of the scheduling pass: \<^verbatim>\<open>tempo\<close>, \<^verbatim>\<open>lastTick\<close>,
  \<^verbatim>\<open>currentTime\<close>, the sixteen objects of \<^verbatim>\<open>activeNotes\<close> (from a note number to the
  closure stored for it) and the sixteen channel states. The state also holds the parser,
  whose sample table \<^verbatim>\<open>playNote\<close> writes, and the list of the calls of stored closures
  made so far, each with the time it was given. A time is \<open>None\<close> when it is not a finite
  number, which happens when the division of the file is 0.
\<close>

record 'v Scheduler =
  tempo :: nat
  lastTick :: int
  currentTime :: "real option"
  activeNotes :: "(nat \<rightharpoonup> 'v list) list"
  channelState :: "ChannelState list"
  parser :: SoundFontParser
  stopped :: "('v list \<times> real option) list"

definition initial_channel :: ChannelState where
  "initial_channel =
     \<lparr>ch_bank = 0, ch_preset = 0, ch_volume = 127, ch_expression = 127, ch_pan = 64,
      ch_mod = 0, ch_pitchBend = 0\<rparr>"

text \<open>Lines 584 to 590; \<open>now\<close> is \<^verbatim>\<open>this.context.currentTime\<close>.\<close>

definition initial_scheduler :: "SoundFontParser \<Rightarrow> real \<Rightarrow> 'v Scheduler" where
  "initial_scheduler p now =
     \<lparr>tempo = 500000, lastTick = 0, currentTime = Some now,
      activeNotes = replicate 16 Map.empty,
      channelState = replicate 16 initial_channel,
      parser = p, stopped = []\<rparr>"

text \<open>
  The first four lines of the callback of \<^verbatim>\<open>events.forEach\<close>: the play head advances
  by \<^verbatim>\<open>(deltaTick / midi.division) * (tempo / 1000000)\<close>.
\<close>

definition advance :: "nat \<Rightarrow> int \<Rightarrow> 'v Scheduler \<Rightarrow> 'v Scheduler" where
  "advance division tick s =
     (let deltaTick = tick - lastTick s;
          deltaSec = (if division = 0 then None
                      else Some (real_of_int deltaTick / real division * (real (tempo s) / 1000000)))
      in s\<lparr>currentTime := (case (currentTime s, deltaSec) of
                               (Some t, Some d) \<Rightarrow> Some (t + d)
                             | _ \<Rightarrow> None),
            lastTick := tick\<rparr>)"

text \<open>
  A stored closure calls the \<^verbatim>\<open>stop\<close> closures of its voices in order. These call the
  audio backend, which is outside the program: \<open>stopper v t\<close> is the exception that the
  \<^verbatim>\<open>stop\<close> closure of voice \<open>v\<close> throws at time \<open>t\<close>, or \<open>None\<close> when it returns.
\<close>

type_synonym 'v stopper = "'v \<Rightarrow> real option \<Rightarrow> error option"

fun call_stop :: "'v stopper \<Rightarrow> 'v list \<Rightarrow> real option \<Rightarrow> error option" where
  "call_stop stopper [] t = None"
| "call_stop stopper (v # vs) t =
     (case stopper v t of Some e \<Rightarrow> Some e | None \<Rightarrow> call_stop stopper vs t)"

text \<open>
  \<^verbatim>\<open>const stop = activeNotes[ch][note]; if (stop) stop(currentTime);
  delete activeNotes[ch][note];\<close> An index \<open>ch\<close> outside the sixteen objects would make
  \<^verbatim>\<open>activeNotes[ch]\<close> \<^verbatim>\<open>undefined\<close> and the access throw.
\<close>

definition note_off :: "'v stopper \<Rightarrow> nat \<Rightarrow> nat \<Rightarrow> 'v Scheduler \<Rightarrow> error + 'v Scheduler" where
  "note_off stopper ch note s =
     (if ch < length (activeNotes s) then
        (case (activeNotes s ! ch) note of
           None \<Rightarrow> Inr (s\<lparr>activeNotes := (activeNotes s)[ch := (activeNotes s ! ch)(note := None)]\<rparr>)
         | Some stop \<Rightarrow>
             (case call_stop stopper stop (currentTime s) of
                Some e \<Rightarrow> Inl e
              | None \<Rightarrow>
                  Inr (s\<lparr>stopped := stopped s @ [(stop, currentTime s)],
                         activeNotes := (activeNotes s)[ch := (activeNotes s ! ch)(note := None)]\<rparr>)))
      else Inl TypeError)"

text \<open>
  \<^verbatim>\<open>const stop = this.playNote(note, vel, currentTime, channelState[ch]);
  activeNotes[ch][note] = stop;\<close> When \<^verbatim>\<open>playNote\<close> throws, the pass ends.
\<close>

definition note_on ::
  "'v backend \<Rightarrow> nat \<Rightarrow> nat \<Rightarrow> nat \<Rightarrow> 'v Scheduler \<Rightarrow> error + 'v Scheduler" where
  "note_on backend ch note vel s =
     (if ch < length (channelState s) \<and> ch < length (activeNotes s) then
        (case playNote backend (parser s) (int note) (int vel) (currentTime s) (channelState s ! ch) of
           (Inl e, p') \<Rightarrow> Inl e
         | (Inr stop, p') \<Rightarrow>
             Inr (s\<lparr>parser := p',
                    activeNotes := (activeNotes s)[ch := (activeNotes s ! ch)(note \<mapsto> stop)]\<rparr>))
      else Inl TypeError)"

text \<open>The controller branch: the six \<^verbatim>\<open>if\<close> statements in their order.\<close>

definition controller :: "nat \<Rightarrow> nat \<Rightarrow> ChannelState \<Rightarrow> ChannelState" where
  "controller cc val c =
     (let c1 = (if cc = 0 then c\<lparr>ch_bank := (ch_bank c AND 0x7F) OR push_bit 7 val\<rparr> else c);
          c2 = (if cc = 32 then c1\<lparr>ch_bank := (ch_bank c1 AND 0x3F80) OR val\<rparr> else c1);
          c3 = (if cc = 7 then c2\<lparr>ch_volume := val\<rparr> else c2);
          c4 = (if cc = 10 then c3\<lparr>ch_pan := val\<rparr> else c3);
          c5 = (if cc = 11 then c4\<lparr>ch_expression := val\<rparr> else c4)
      in if cc = 1 then c5\<lparr>ch_mod := val\<rparr> else c5)"

definition update_channel ::
  "nat \<Rightarrow> (ChannelState \<Rightarrow> ChannelState) \<Rightarrow> 'v Scheduler \<Rightarrow> error + 'v Scheduler" where
  "update_channel ch f s =
     (if ch < length (channelState s)
      then Inr (s\<lparr>channelState := (channelState s)[ch := f (channelState s ! ch)]\<rparr>)
      else Inl TypeError)"

text \<open>
  The callback of \<^verbatim>\<open>events.forEach\<close>: the advance of the play head, then the chain of
  \<^verbatim>\<open>if\<close> and \<^verbatim>\<open>else if\<close> on \<^verbatim>\<open>ev.metaType\<close> and \<^verbatim>\<open>ev.type\<close>. The parser gives
  one data byte exactly to the events of type \<open>0xC\<close> and \<open>0xD\<close>, so the branches for the
  types \<open>0x9\<close>, \<open>0x8\<close>, \<open>0xB\<close> and \<open>0xE\<close> see events with two data bytes, and the branch
  for \<open>0xC\<close> an event with one.
\<close>

definition dispatch ::
  "'v backend \<Rightarrow> 'v stopper \<Rightarrow> nat \<Rightarrow> 'v Scheduler \<Rightarrow> int \<times> Event \<Rightarrow> error + 'v Scheduler" where
  "dispatch backend stopper division s0 tev =
     (let s = advance division (fst tev) s0 in
      case ev_body (snd tev) of
        Meta metaType data \<Rightarrow>
          if metaType = 0x51 \<and> length data = 3
          then Inr (s\<lparr>tempo := push_bit 16 (data ! 0) OR push_bit 8 (data ! 1) OR (data ! 2)\<rparr>)
          else Inr s
      | SysEx data \<Rightarrow> Inr s
      | Voice2 ch type param1 param2 \<Rightarrow>
          if type = 0x9 then
            (if param2 = 0 then note_off stopper ch param1 s
             else note_on backend ch param1 param2 s)
          else if type = 0x8 then note_off stopper ch param1 s
          else if type = 0xB then update_channel ch (controller param1 param2) s
          else if type = 0xE then
            update_channel ch
              (\<lambda>c. c\<lparr>ch_pitchBend := int (push_bit 7 param2 OR param1) - 8192\<rparr>) s
          else Inr s
      | Voice1 ch type param1 \<Rightarrow>
          if type = 0xC then update_channel ch (\<lambda>c. c\<lparr>ch_preset := param1\<rparr>) s
          else Inr s)"

text \<open>The \<^verbatim>\<open>forEach\<close> over the sorted events; an exception ends the pass.\<close>

fun run_events ::
  "'v backend \<Rightarrow> 'v stopper \<Rightarrow> nat \<Rightarrow> 'v Scheduler \<Rightarrow> (int \<times> Event) list \<Rightarrow> error + 'v Scheduler" where
  "run_events backend stopper division s [] = Inr s"
| "run_events backend stopper division s (tev # tevs) =
     and_then (dispatch backend stopper division s tev)
       (\<lambda>s'. run_events backend stopper division s' tevs)"

text \<open>
  \<^verbatim>\<open>playMIDI(midiBuffer)\<close>, for a player with the parser \<open>p\<close> and an audio context whose
  clock shows \<open>now\<close>. The result is the state of the pass after the last event.
\<close>

definition playMIDI ::
  "'v backend \<Rightarrow> 'v stopper \<Rightarrow> SoundFontParser \<Rightarrow> real \<Rightarrow> DataView \<Rightarrow> error + 'v Scheduler" where
  "playMIDI backend stopper p now midiBuffer =
     and_then (parseMIDI midiBuffer) (\<lambda>midi.
       run_events backend stopper (midi_division midi) (initial_scheduler p now) (timeline midi))"

section \<open>The encoding of variable-length quantities\<close>

text \<open>
  Modelled from the spec: the source has a decoder of variable-length quantities and no
  encoder. The specification describes the encoding: seven data bits per byte, most
  significant group first, the high bit set on every byte but the last; \<open>0\<close> is one zero
  byte and \<open>128\<close> is the two bytes \<open>0x81 0x00\<close>. \<open>vlq_cont n\<close> is the run of
  continuation bytes that carries \<open>n\<close>.
\<close>

fun vlq_cont :: "nat \<Rightarrow> char list" where
  "vlq_cont n = (if n = 0 then [] else vlq_cont (n div 128) @ [char_of (128 + n mod 128)])"

declare vlq_cont.simps [simp del]

definition vlq_encode :: "nat \<Rightarrow> char list" where
  "vlq_encode v = vlq_cont (v div 128) @ [char_of (v mod 128)]"

section \<open>Notions used to state the properties\<close>

text \<open>
  What a zone contributes to an operator: \<open>has_op k zone\<close> holds when the zone has a
  generator with operator \<open>k\<close>, and \<open>zone_sum k zone\<close> is the sum of the amounts of these
  generators.
\<close>

definition has_op :: "nat \<Rightarrow> Zone \<Rightarrow> bool" where
  "has_op k zone \<longleftrightarrow> k \<in> op ` set (generators zone)"

definition zone_sum :: "nat \<Rightarrow> Zone \<Rightarrow> int" where
  "zone_sum k zone = sum_list (map amount (filter (\<lambda>g. op g = k) (generators zone)))"

text \<open>
  The operators whose case of the \<^verbatim>\<open>switch\<close> assigns the amount to a parameter, and
  those whose case assigns the amount converted from time-cents to seconds, each with the
  parameter it assigns.
\<close>

definition direct_params :: "(nat \<times> (VoiceParams \<Rightarrow> real)) list" where
  "direct_params =
     [(5, modLfoToPitch), (6, vibLfoToPitch), (7, modEnvToPitch), (8, filterFc), (9, filterQ),
      (10, modLfoToFilterFc), (11, modEnvToFilterFc), (13, modLfoToVolume), (15, chorusSend),
      (16, reverbSend), (17, pan), (22, freqModLfo), (24, freqVibLfo), (29, sustainModEnv),
      (37, sustainVolEnv), (51, coarseTune), (52, fineTune), (54, sampleModes),
      (56, scaleTune), (58, rootKey)]"

definition time_params :: "(nat \<times> (VoiceParams \<Rightarrow> real)) list" where
  "time_params =
     [(21, delayModLfo), (23, delayVibLfo), (25, delayModEnv), (26, attackModEnv),
      (27, holdModEnv), (28, decayModEnv), (30, releaseModEnv), (33, delayVolEnv),
      (34, attackVolEnv), (35, holdVolEnv), (36, decayVolEnv), (38, releaseVolEnv)]"

text \<open>
  A preset zone that matches the note and refers to an instrument that is not in the table,
  and the matches that a preset zone adds when its instrument is in the table.
\<close>

definition dangling :: "SoundFontParser \<Rightarrow> int \<Rightarrow> int \<Rightarrow> Zone \<Rightarrow> bool" where
  "dangling p key velocity zone \<longleftrightarrow>
     in_ranges zone key velocity \<and>
     (\<exists>i. instrumentID zone = Some i \<and> js_lookup (instruments p) i = None)"

definition zone_matches :: "SoundFontParser \<Rightarrow> int \<Rightarrow> int \<Rightarrow> Zone \<Rightarrow> Match list" where
  "zone_matches p key velocity zone =
     (if in_ranges zone key velocity then
        (case instrumentID zone of
           None \<Rightarrow> []
         | Some i \<Rightarrow>
             (case js_lookup (instruments p) i of
                None \<Rightarrow> []
              | Some inst \<Rightarrow> inst_matches p zone key velocity inst))
      else [])"

text \<open>
  The shape of the channel events that the MIDI parser builds: the channel is the low
  nibble of the status, and an event has one data byte exactly when its type is \<open>0xC\<close> or
  \<open>0xD\<close>.
\<close>

definition wf_event :: "Event \<Rightarrow> bool" where
  "wf_event ev =
     (case ev_body ev of
        Voice1 ch type param1 \<Rightarrow> ch < 16 \<and> (type = 0xC \<or> type = 0xD)
      | Voice2 ch type param1 param2 \<Rightarrow> ch < 16 \<and> type \<noteq> 0xC \<and> type \<noteq> 0xD
      | _ \<Rightarrow> True)"

section \<open>A small sound bank\<close>

text \<open>
  The bytes of a SoundFont file, used to run the parser on an example: one sample (and
  the terminal sample record), one instrument with one zone, four presets of which the
  first has one zone, and the terminal records of each table. The instrument zone sets the
  filter cutoff generator (operator 8) to \<open>-2000\<close> and refers to sample 0; the preset zone
  sets the same generator to \<open>-500\<close> and refers to instrument 0.
\<close>

definition le16 :: "int \<Rightarrow> char list" where
  "le16 a = [char_of a, char_of (a div 256)]"

definition le32 :: "int \<Rightarrow> char list" where
  "le32 a = le16 a @ le16 (a div 65536)"

definition padded :: "nat \<Rightarrow> string \<Rightarrow> char list" where
  "padded n s = s @ replicate (n - length s) (CHR 0x00)"

definition riff_chunk :: "string \<Rightarrow> char list \<Rightarrow> char list" where
  "riff_chunk tag body = tag @ le32 (int (length body)) @ body @ replicate (length body mod 2) (CHR 0x00)"

definition example_phdr :: "char list" where
  "example_phdr =
     padded 20 ''Piano'' @ le16 0 @ le16 0 @ le16 0 @ padded 12 [] @
     padded 20 ''Organ'' @ le16 1 @ le16 0 @ le16 1 @ padded 12 [] @
     padded 20 ''Bass'' @ le16 2 @ le16 0 @ le16 1 @ padded 12 [] @
     padded 20 ''Lead'' @ le16 3 @ le16 0 @ le16 1 @ padded 12 [] @
     padded 20 ''EOP'' @ le16 0 @ le16 0 @ le16 1 @ padded 12 []"

definition example_pdta :: "char list" where
  "example_pdta =
     riff_chunk ''phdr'' example_phdr @
     riff_chunk ''pbag'' (le16 0 @ le16 0 @ le16 2 @ le16 0) @
     riff_chunk ''pmod'' (padded 10 []) @
     riff_chunk ''pgen'' (le16 8 @ le16 (- 500) @ le16 41 @ le16 0 @ le16 0 @ le16 0) @
     riff_chunk ''inst'' (padded 20 ''Grand'' @ le16 0 @ padded 20 ''EOI'' @ le16 1) @
     riff_chunk ''ibag'' (le16 0 @ le16 0 @ le16 2 @ le16 0) @
     riff_chunk ''imod'' (padded 10 []) @
     riff_chunk ''igen'' (le16 8 @ le16 (- 2000) @ le16 53 @ le16 0 @ le16 0 @ le16 0) @
     riff_chunk ''shdr''
       (padded 20 ''Tone'' @ le32 0 @ le32 4 @ le32 1 @ le32 3 @ le32 8000 @
          [CHR 0x3C, CHR 0x00] @ le16 0 @ le16 1 @
        padded 46 ''EOS'')"

definition example_sf2 :: DataView where
  "example_sf2 =
     riff_chunk ''RIFF''
       (''sfbk'' @
        riff_chunk ''LIST'' (''sdta'' @ riff_chunk ''smpl'' (padded 8 [])) @
        riff_chunk ''LIST'' (''pdta'' @ example_pdta))"

text \<open>The tables that the parser builds from these bytes.\<close>

definition example_riff :: chunk_map where
  "example_riff =
     [(''sfbk'',
       Chunks
        [(''sdta'', Chunks [(''smpl'', Leaf 32 8)]),
         (''pdta'',
          Chunks
           [(''phdr'', Leaf 60 190), (''pbag'', Leaf 258 8), (''pmod'', Leaf 274 10),
            (''pgen'', Leaf 292 12), (''inst'', Leaf 312 44), (''ibag'', Leaf 364 8),
            (''imod'', Leaf 380 10), (''igen'', Leaf 398 12), (''shdr'', Leaf 418 92)])])]"

definition example_samples :: "Sample list" where
  "example_samples =
     [\<lparr>sample_name = ''Tone'', start = 0, sample_end = 4, startLoop = 1, endLoop = 3,
       sampleRate = 8000, originalKey = 60, correction = 0, sampleLink = 0, sampleType = 1\<rparr>,
      \<lparr>sample_name = ''EOS'', start = 0, sample_end = 0, startLoop = 0, endLoop = 0,
       sampleRate = 0, originalKey = 0, correction = 0, sampleLink = 0, sampleType = 0\<rparr>]"

definition example_inst_zone :: Zone where
  "example_inst_zone =
     \<lparr>generators = [\<lparr>op = 8, amount = - 2000\<rparr>, \<lparr>op = 53, amount = 0\<rparr>],
      keyRange = \<lparr>lo = 0, hi = 127\<rparr>, velRange = \<lparr>lo = 0, hi = 127\<rparr>,
      sampleID = Some 0, instrumentID = None\<rparr>"

definition example_preset_zone :: Zone where
  "example_preset_zone =
     \<lparr>generators = [\<lparr>op = 8, amount = - 500\<rparr>, \<lparr>op = 41, amount = 0\<rparr>],
      keyRange = \<lparr>lo = 0, hi = 127\<rparr>, velRange = \<lparr>lo = 0, hi = 127\<rparr>,
      sampleID = None, instrumentID = Some 0\<rparr>"

definition example_bank :: SoundFontParser where
  "example_bank =
     \<lparr>buffer_view = example_sf2, riff = example_riff, samples = example_samples,
      instruments = [\<lparr>inst_name = ''Grand'', inst_zones = [example_inst_zone]\<rparr>],
      presets =
        [\<lparr>preset_name = ''Piano'', preset_program = 0, preset_bank = 0,
          preset_zones = [example_preset_zone]\<rparr>,
         \<lparr>preset_name = ''Organ'', preset_program = 1, preset_bank = 0, preset_zones = []\<rparr>,
         \<lparr>preset_name = ''Bass'', preset_program = 2, preset_bank = 0, preset_zones = []\<rparr>,
         \<lparr>preset_name = ''Lead'', preset_program = 3, preset_bank = 0, preset_zones = []\<rparr>],
      sampleData = Some (32, 4)\<rparr>"

text \<open>
  Three variants of the bank. In the first the preset has a second zone, which refers to an
  instrument 7 that the bank does not have. In the second the zone of the instrument refers
  to a sample 9 that the bank does not have. In the third the zone of the instrument has
  the generator \<open>startAddrsOffset\<close> (operator 0) with amount 1.
\<close>

definition dangling_zone :: Zone where
  "dangling_zone =
     \<lparr>generators = [\<lparr>op = 41, amount = 7\<rparr>],
      keyRange = \<lparr>lo = 0, hi = 127\<rparr>, velRange = \<lparr>lo = 0, hi = 127\<rparr>,
      sampleID = None, instrumentID = Some 7\<rparr>"

definition dangling_bank :: SoundFontParser where
  "dangling_bank =
     example_bank\<lparr>presets :=
       [\<lparr>preset_name = ''Piano'', preset_program = 0, preset_bank = 0,
         preset_zones = [example_preset_zone, dangling_zone]\<rparr>]\<rparr>"

definition missing_sample_zone :: Zone where
  "missing_sample_zone =
     \<lparr>generators = [\<lparr>op = 53, amount = 9\<rparr>],
      keyRange = \<lparr>lo = 0, hi = 127\<rparr>, velRange = \<lparr>lo = 0, hi = 127\<rparr>,
      sampleID = Some 9, instrumentID = None\<rparr>"

definition missing_sample_bank :: SoundFontParser where
  "missing_sample_bank =
     example_bank\<lparr>instruments :=
       [\<lparr>inst_name = ''Grand'', inst_zones = [missing_sample_zone]\<rparr>]\<rparr>"

definition offset_zone :: Zone where
  "offset_zone =
     \<lparr>generators = [\<lparr>op = 0, amount = 1\<rparr>, \<lparr>op = 53, amount = 0\<rparr>],
      keyRange = \<lparr>lo = 0, hi = 127\<rparr>, velRange = \<lparr>lo = 0, hi = 127\<rparr>,
      sampleID = Some 0, instrumentID = None\<rparr>"

definition offset_bank :: SoundFontParser where
  "offset_bank =
     example_bank\<lparr>instruments :=
       [\<lparr>inst_name = ''Grand'', inst_zones = [offset_zone]\<rparr>]\<rparr>"

text \<open>
  An audio backend none of whose calls throws: it accepts the voice that \<^verbatim>\<open>playNote\<close>
  hands to it, and its voices stop without exception.
\<close>

definition silent_backend :: "unit backend" where
  "silent_backend p ps buffer si key velocity startTime state = Inr ()"

definition silent_stopper :: "unit stopper" where
  "silent_stopper v t = None"

text \<open>
  Two MIDI files. The first has a header and no track. The second has one track at 480
  ticks per quarter note: a note-on of key 60 on channel 0, after 480 ticks its note-off,
  a note-off of key 62, which was never switched on, and the end of the track.
\<close>

definition header_midi :: DataView where
  "header_midi =
     ''MThd'' @ [CHR 0x00, CHR 0x00, CHR 0x00, CHR 0x06, CHR 0x00, CHR 0x00,
                 CHR 0x00, CHR 0x00, CHR 0x01, CHR 0xE0]"

definition example_midi :: DataView where
  "example_midi =
     ''MThd'' @ [CHR 0x00, CHR 0x00, CHR 0x00, CHR 0x06, CHR 0x00, CHR 0x00,
                 CHR 0x00, CHR 0x01, CHR 0x01, CHR 0xE0] @
     ''MTrk'' @ [CHR 0x00, CHR 0x00, CHR 0x00, CHR 0x11] @
     [CHR 0x00, CHR 0x90, CHR 0x3C, CHR 0x64,
      CHR 0x83, CHR 0x60, CHR 0x80, CHR 0x3C, CHR 0x00,
      CHR 0x00, CHR 0x80, CHR 0x3E, CHR 0x00,
      CHR 0x00, CHR 0xFF, CHR 0x2F, CHR 0x00]"

definition example_events :: "Event list" where
  "example_events =
     [\<lparr>ev_delta = 0, ev_status = 0x90, ev_body = Voice2 0 0x9 60 100\<rparr>,
      \<lparr>ev_delta = 480, ev_status = 0x80, ev_body = Voice2 0 0x8 60 0\<rparr>,
      \<lparr>ev_delta = 0, ev_status = 0x80, ev_body = Voice2 0 0x8 62 0\<rparr>,
      \<lparr>ev_delta = 0, ev_status = 0xFF, ev_body = Meta 0x2F []\<rparr>]"



section \<open>Variable-length quantities: decoding inverts encoding\<close>

lemma and_127_cont: "(128 + (m::nat) mod 128) AND 127 = m mod 128"
proof -
  have "(128 + m mod 128) AND 127 = take_bit 7 (128 + m mod 128)"
    by (simp add: take_bit_eq_mask mask_eq_exp_minus_1)
  also have "\<dots> = m mod 128"
    by (simp add: take_bit_eq_mod)
  finally show ?thesis .
qed

lemma and_127_last: "((m::nat) mod 128) AND 127 = m mod 128"
proof -
  have "(m mod 128) AND 127 = take_bit 7 (m mod 128)"
    by (simp add: take_bit_eq_mask mask_eq_exp_minus_1)
  also have "\<dots> = m mod 128"
    by (simp add: take_bit_eq_mod)
  finally show ?thesis .
qed

lemma and_128_cont: "(128 + (m::nat) mod 128) AND 128 \<noteq> 0"
proof -
  have "(128 + m mod 128) div 128 = 1" by simp
  then have "bit (128 + m mod 128) 7" by (simp add: bit_iff_odd)
  then show ?thesis using and_exp_eq_0_iff_not_bit [of "128 + m mod 128" 7] by simp
qed

lemma and_128_last: "((m::nat) mod 128) AND 128 = 0"
proof -
  have "\<not> bit (m mod 128) 7" by (simp add: bit_iff_odd)
  then show ?thesis using and_exp_eq_0_iff_not_bit [of "m mod 128" 7] by simp
qed

text \<open>Below \<open>2^31\<close> the 32-bit shift is a multiplication by 128.\<close>

lemma js_shl_7:
  assumes "0 \<le> a" "a * 128 < 2147483648"
  shows "js_shl a 7 = a * 128"
proof -
  have "js_shl a 7 = sint (word_of_int (a * 128) :: 32 word)"
    by (simp add: js_shl_def push_bit_eq_mult)
  also have "\<dots> = signed_take_bit 31 (a * 128)"
    by (subst sint_sbintrunc') simp
  also have "\<dots> = a * 128"
    by (rule signed_take_bit_int_eq_self) (use assms in simp_all)
  finally show ?thesis .
qed

text \<open>
  The loop, started with accumulator \<open>a\<close> in front of the continuation bytes of \<open>n\<close>,
  reaches the byte after them with accumulator \<open>a * 128 ^ k + n\<close>.
\<close>

lemma readVLQ_loop_cont:
  "0 \<le> a \<Longrightarrow> a * 128 ^ length (vlq_cont n) + int n < 2 ^ 31 \<Longrightarrow>
   length pre = offset + bytes \<Longrightarrow>
   readVLQ_loop (pre @ vlq_cont n @ rest) offset a bytes =
   readVLQ_loop (pre @ vlq_cont n @ rest) offset
     (a * 128 ^ length (vlq_cont n) + int n) (bytes + length (vlq_cont n))"
proof (induction n arbitrary: rest rule: vlq_cont.induct)
  case (1 n)
  show ?case
  proof (cases "n = 0")
    case True
    then show ?thesis by (simp add: vlq_cont.simps)
  next
    case False
    let ?q = "n div 128"
    let ?c = "char_of (128 + n mod 128) :: char"
    let ?k = "length (vlq_cont ?q)"
    let ?view = "pre @ vlq_cont n @ rest"
    let ?a' = "a * 128 ^ ?k + int ?q"
    have unfold: "vlq_cont n = vlq_cont ?q @ [?c]"
      using False by (subst vlq_cont.simps) simp
    have len: "length (vlq_cont n) = Suc ?k"
      by (subst unfold) simp
    have view_eq: "?view = pre @ vlq_cont ?q @ (?c # rest)"
      by (subst unfold) simp
    have total: "?a' * 128 + int (n mod 128) = a * 128 ^ length (vlq_cont n) + int n"
    proof -
      have "int n = int ?q * 128 + int (n mod 128)"
        by (simp add: zmod_int zdiv_int)
      then show ?thesis unfolding len by (simp add: algebra_simps)
    qed
    have nonneg: "0 \<le> ?a'" using "1.prems"(1) by simp
    have small: "?a' * 128 < 2147483648" using "1.prems"(2) total by simp
    have small': "?a' < 2 ^ 31" using small nonneg by simp
    have front: "readVLQ_loop ?view offset a bytes = readVLQ_loop ?view offset ?a' (bytes + ?k)"
      using "1.IH" [OF False "1.prems"(1) small' "1.prems"(3), of "?c # rest"]
      by (simp only: view_eq)
    have byte: "getUint8 ?view (offset + (bytes + ?k)) = Inr (128 + n mod 128)"
      using "1.prems"(3) by (simp add: view_eq getUint8_def byte_at_def nth_append)
    have step: "readVLQ_loop ?view offset ?a' (bytes + ?k) =
        readVLQ_loop ?view offset (?a' * 128 + int (n mod 128)) (bytes + ?k + 1)"
      by (subst readVLQ_loop.simps)
         (simp add: byte and_127_cont and_128_cont js_shl_7 [OF nonneg small])
    show ?thesis
      by (simp only: front step total) (simp add: len)
  qed
qed

section \<open>The chunk loop, case by case\<close>

lemma and_then_eq_Inr:
  "and_then m f = Inr y \<longleftrightarrow> (\<exists>x. m = Inr x \<and> f x = Inr y)"
  by (cases m) simp_all

lemma and_then_eq_Inl:
  "and_then m f = Inl e \<longleftrightarrow> m = Inl e \<or> (\<exists>x. m = Inr x \<and> f x = Inl e)"
  by (cases m) simp_all

lemma parseRIFF_loop_stop:
  "\<not> offset < end' \<Longrightarrow> parseRIFF_loop view end' (offset, chunks) = Inr (offset, chunks)"
  by (subst parseRIFF_loop.simps) simp

lemma parseRIFF_loop_fail:
  "offset < end' \<Longrightarrow> readChunk view offset = Inl e \<Longrightarrow>
   parseRIFF_loop view end' (offset, chunks) = Inl e"
  by (subst parseRIFF_loop.simps) simp

lemma parseRIFF_loop_leaf:
  "offset < end' \<Longrightarrow> readChunk view offset = Inr chunk \<Longrightarrow>
   \<not> (chunk_id chunk = ''RIFF'' \<or> chunk_id chunk = ''LIST'') \<Longrightarrow>
   parseRIFF_loop view end' (offset, chunks) =
   parseRIFF_loop view end'
     (chunk_end chunk + chunk_size chunk mod 2,
      AList.update (chunk_id chunk) (Leaf (chunk_offset chunk) (chunk_size chunk)) chunks)"
  by (subst parseRIFF_loop.simps) simp

lemma parseRIFF_loop_container:
  "offset < end' \<Longrightarrow> readChunk view offset = Inr chunk \<Longrightarrow>
   chunk_id chunk = ''RIFF'' \<or> chunk_id chunk = ''LIST'' \<Longrightarrow>
   parseRIFF_loop view end' (offset, chunks) =
   and_then (readString view (chunk_offset chunk) 4) (\<lambda>formType.
   and_then (parseRIFF_loop view (chunk_end chunk) (chunk_offset chunk + 4, [])) (\<lambda>sub.
     parseRIFF_loop view end'
       (chunk_end chunk + chunk_size chunk mod 2,
        AList.update formType (Chunks (snd sub)) chunks)))"
  by (subst parseRIFF_loop.simps) simp


text \<open>The only exception of the chunk reader is the \<open>RangeError\<close> of a read.\<close>

lemma getUint8_error: "getUint8 view offset = Inl e \<Longrightarrow> e = RangeError"
  by (simp add: getUint8_def split: if_splits)

lemma readString_error: "readString view offset n = Inl e \<Longrightarrow> e = RangeError"
proof (induction n arbitrary: offset)
  case 0
  then show ?case by simp
next
  case (Suc n)
  then show ?case
    by (auto simp: and_then_eq_Inl dest: getUint8_error split: if_splits)
qed

lemma readChunk_error: "readChunk view offset = Inl e \<Longrightarrow> e = RangeError"
  by (auto simp: readChunk_def and_then_eq_Inl getUint32_def dest: readString_error
      split: if_splits)

lemma parseRIFF_loop_error:
  "parseRIFF_loop view end' st = Inl e \<Longrightarrow> e = RangeError"
proof (induction view end' st rule: parseRIFF_loop.induct)
  case (1 view end' offset chunks)
  show ?case
  proof (cases "offset < end'")
    case False
    with "1.prems" show ?thesis by (simp add: parseRIFF_loop_stop)
  next
    case True
    show ?thesis
    proof (cases "readChunk view offset")
      case (Inl e')
      with "1.prems" True show ?thesis by (simp add: parseRIFF_loop_fail readChunk_error)
    next
      case (Inr chunk)
      show ?thesis
      proof (cases "chunk_id chunk = ''RIFF'' \<or> chunk_id chunk = ''LIST''")
        case False
        from "1.prems" have "parseRIFF_loop view end'
              (chunk_end chunk + chunk_size chunk mod 2,
               AList.update (chunk_id chunk) (Leaf (chunk_offset chunk) (chunk_size chunk)) chunks)
              = Inl e"
          by (simp only: parseRIFF_loop_leaf [OF True Inr False])
        then show ?thesis by (rule "1.IH"(3) [OF True Inr False])
      next
        case cont: True
        from "1.prems" consider
          (form) "readString view (chunk_offset chunk) 4 = Inl e"
        | (body) formType where "readString view (chunk_offset chunk) 4 = Inr formType"
              "parseRIFF_loop view (chunk_end chunk) (chunk_offset chunk + 4, []) = Inl e"
        | (later) formType sub where "readString view (chunk_offset chunk) 4 = Inr formType"
              "parseRIFF_loop view (chunk_end chunk) (chunk_offset chunk + 4, []) = Inr sub"
              "parseRIFF_loop view end'
                (chunk_end chunk + chunk_size chunk mod 2,
                 AList.update formType (Chunks (snd sub)) chunks) = Inl e"
          unfolding parseRIFF_loop_container [OF True Inr cont] and_then_eq_Inl by blast
        then show ?thesis
        proof cases
          case form
          then show ?thesis by (rule readString_error)
        next
          case body
          from body(2) show ?thesis by (rule "1.IH"(1) [OF True Inr cont body(1)])
        next
          case later
          from later(3) show ?thesis by (rule "1.IH"(2) [OF True Inr cont later(1) later(2)])
        qed
      qed
    qed
  qed
qed

section \<open>The loops of the SoundFont parser\<close>

lemma for_each_length: "for_each is body = Inr xs \<Longrightarrow> length xs = length is"
  by (induction "is" arbitrary: xs) (auto simp: and_then_eq_Inr)

lemma for_loop_length: "for_loop n body = Inr xs \<Longrightarrow> length xs = n"
  by (simp add: for_loop_def for_each_length)

lemma for_each_nth:
  "for_each is body = Inr xs \<Longrightarrow> k < length is \<Longrightarrow> body (is ! k) = Inr (xs ! k)"
proof (induction "is" arbitrary: xs k)
  case Nil
  then show ?case by simp
next
  case (Cons i "is")
  then show ?case by (cases k) (auto simp: and_then_eq_Inr)
qed

lemma for_loop_nth: "for_loop n body = Inr xs \<Longrightarrow> k < n \<Longrightarrow> body k = Inr (xs ! k)"
  using for_each_nth [of "[0..<n]" body xs k] by (simp add: for_loop_def)

text \<open>A table of \<open>n\<close> records of width \<open>w\<close> gives \<open>n - 1\<close> iterations of the header loops.\<close>

lemma iterations_records: "0 < w \<Longrightarrow> iterations (js_minus (js_div (Some (w * n)) w) 1) = n - 1"
  by (simp add: iterations_def js_minus_def js_div_def)

lemma read_preset_zones:
  assumes "read_preset v (Some d) pbag pgen i = Inr pr"
  shows "\<exists>bag next. getUint16 v (d + i * 38 + 24) True = Inr bag \<and>
           getUint16 v (d + (i + 1) * 38 + 24) True = Inr next \<and>
           length (preset_zones pr) = nat (int next - int bag) \<and>
           readString v (d + i * 38) 20 = Inr (preset_name pr)"
  using assms
  by (auto simp: read_preset_def and_then_eq_Inr ToIndex_def js_plus_def Let_def ac_simps
      dest!: for_loop_length)

lemma read_instrument_zones:
  assumes "read_instrument v (Some d) ibag igen i = Inr ins"
  shows "\<exists>bag next. getUint16 v (d + i * 22 + 20) True = Inr bag \<and>
           getUint16 v (d + (i + 1) * 22 + 20) True = Inr next \<and>
           length (inst_zones ins) = nat (int next - int bag) \<and>
           readString v (d + i * 22) 20 = Inr (inst_name ins)"
  using assms
  by (auto simp: read_instrument_def and_then_eq_Inr ToIndex_def js_plus_def Let_def ac_simps
      dest!: for_loop_length)

lemma parse_presets:
  assumes "parse v r = Inr p"
  obtains sfbk pdta phdr phdr_size pbag pgen where
     "map_of r ''sfbk'' = Some sfbk" "get_prop (Some sfbk) ''pdta'' = Inr pdta"
     "get_prop pdta ''phdr'' = Inr phdr" "prop_size phdr = Inr phdr_size"
     "for_loop (iterations (js_minus (js_div phdr_size 38) 1))
        (\<lambda>i. and_then (prop_dataOffset phdr) (\<lambda>d. read_preset v d pbag pgen i)) = Inr (presets p)"
proof (cases "map_of r ''sfbk''")
  case None
  with assms show ?thesis by (simp add: parse_def)
next
  case (Some sfbk)
  with assms that show ?thesis
    by (auto simp: parse_def and_then_eq_Inr)
qed

lemma parse_instruments:
  assumes "parse v r = Inr p"
  obtains sfbk pdta inst inst_size ibag igen where
     "map_of r ''sfbk'' = Some sfbk" "get_prop (Some sfbk) ''pdta'' = Inr pdta"
     "get_prop pdta ''inst'' = Inr inst" "prop_size inst = Inr inst_size"
     "for_loop (iterations (js_minus (js_div inst_size 22) 1))
        (\<lambda>i. and_then (prop_dataOffset inst) (\<lambda>d. read_instrument v d ibag igen i)) = Inr (instruments p)"
proof (cases "map_of r ''sfbk''")
  case None
  with assms show ?thesis by (simp add: parse_def)
next
  case (Some sfbk)
  with assms that show ?thesis
    by (auto simp: parse_def and_then_eq_Inr)
qed

section \<open>Zone resolution in closed form\<close>

lemma preset_zones_loop_append:
  "preset_zones_loop p key velocity acc zones =
     and_then (preset_zones_loop p key velocity [] zones) (\<lambda>ms. Inr (acc @ ms))"
proof (induction zones arbitrary: acc)
  case Nil
  then show ?case by simp
next
  case (Cons zone zones)
  show ?case
  proof (cases "preset_zone_step p key velocity [] zone")
    case (Inl e)
    then have "preset_zone_step p key velocity acc zone = Inl e"
      by (auto simp: preset_zone_step_def split: if_splits option.splits)
    with Inl show ?thesis by simp
  next
    case (Inr ms)
    then have "preset_zone_step p key velocity acc zone = Inr (acc @ ms)"
      by (auto simp: preset_zone_step_def split: if_splits option.splits)
    with Inr show ?thesis
      using Cons.IH [of "acc @ ms"] Cons.IH [of ms]
      by (cases "preset_zones_loop p key velocity [] zones") simp_all
  qed
qed

lemma preset_zones_loop_eq:
  "preset_zones_loop p key velocity [] zones =
     (if \<exists>zone \<in> set zones. dangling p key velocity zone then Inl TypeError
      else Inr (concat (map (zone_matches p key velocity) zones)))"
proof (induction zones)
  case Nil
  then show ?case by simp
next
  case (Cons zone zones)
  show ?case
  proof (cases "dangling p key velocity zone")
    case True
    then have "preset_zone_step p key velocity [] zone = Inl TypeError"
      by (auto simp: dangling_def preset_zone_step_def)
    with True show ?thesis by simp
  next
    case False
    then have "preset_zone_step p key velocity [] zone = Inr (zone_matches p key velocity zone)"
      by (auto simp: dangling_def preset_zone_step_def zone_matches_def split: option.splits)
    with False show ?thesis
      using Cons.IH preset_zones_loop_append [of p key velocity "zone_matches p key velocity zone" zones]
      by simp
  qed
qed

section \<open>The aggregation of generators\<close>

lemma or_zero_Some [simp]: "or_zero (Some v) = v"
  by (simp add: or_zero_def)

lemma or_zero_None [simp]: "or_zero None = 0"
  by (simp add: or_zero_def)

lemma map_of_add_gen:
  "map_of (add_gen eg g) k =
     (if op g = k then Some (or_zero (map_of eg k) + amount g) else map_of eg k)"
  by (auto simp: add_gen_def update_conv')

lemma filter_op_empty: "k \<notin> op ` set gs \<Longrightarrow> filter (\<lambda>g. op g = k) gs = []"
  by (induction gs) auto

lemma map_of_foldl_add_gen:
  "map_of (foldl add_gen eg gs) k =
     (if k \<in> op ` set gs
      then Some (or_zero (map_of eg k) + sum_list (map amount (filter (\<lambda>g. op g = k) gs)))
      else map_of eg k)"
proof (induction gs arbitrary: eg)
  case Nil
  then show ?case by simp
next
  case (Cons g gs)
  show ?case
    by (auto simp: Cons.IH map_of_add_gen filter_op_empty)
qed

lemma map_of_effectiveGens:
  "map_of (effectiveGens zone presetZone) k =
     (if has_op k zone \<or> has_op k presetZone
      then Some (zone_sum k zone + zone_sum k presetZone) else None)"
  by (auto simp: effectiveGens_def map_of_foldl_add_gen has_op_def zone_sum_def filter_op_empty)

lemma distinct_foldl_add_gen:
  "distinct (map fst eg) \<Longrightarrow> distinct (map fst (foldl add_gen eg gs))"
  by (induction gs arbitrary: eg) (simp_all add: add_gen_def distinct_update)

lemma distinct_effectiveGens: "distinct (map fst (effectiveGens zone presetZone))"
  by (simp add: effectiveGens_def distinct_foldl_add_gen)

lemma sort_key_fst_distinct:
  assumes "distinct (map fst eg)"
  shows "distinct (map fst (sort_key fst eg))" and "map_of (sort_key fst eg) = map_of eg"
proof -
  show d: "distinct (map fst (sort_key fst eg))"
    using assms by (simp add: distinct_map)
  show "map_of (sort_key fst eg) = map_of eg"
    using map_of_inject_set [OF d assms] by simp
qed

lemma foldl_apply_gen_assign:
  assumes step: "\<And>st j a. F (fst (apply_gen st (j, a))) = (if j = k then g a else F (fst st))"
    and "distinct (map fst kvs)"
  shows "F (fst (foldl apply_gen st kvs)) = (case map_of kvs k of None \<Rightarrow> F (fst st) | Some a \<Rightarrow> g a)"
  using assms(2)
proof (induction kvs rule: rev_induct)
  case Nil
  then show ?case by simp
next
  case (snoc x kvs)
  obtain j a where x: "x = (j, a)" by (cases x)
  from snoc.prems have d: "distinct (map fst kvs)" and new: "j \<notin> fst ` set kvs"
    by (simp_all add: x)
  show ?case
  proof (cases "j = k")
    case True
    with new have "map_of kvs k = None" by (simp add: map_of_eq_None_iff)
    with True show ?thesis by (simp add: x step map_add_def)
  next
    case False
    then show ?thesis
      using snoc.IH [OF d] by (simp add: x step map_add_def split: option.splits)
  qed
qed

lemma foldl_apply_gen_add:
  fixes F :: "VoiceParams \<Rightarrow> real"
  assumes step: "\<And>st j a. F (fst (apply_gen st (j, a))) = (if j = k then F (fst st) + g a else F (fst st))"
    and "distinct (map fst kvs)"
  shows "F (fst (foldl apply_gen st kvs)) = F (fst st) + (case map_of kvs k of None \<Rightarrow> 0 | Some a \<Rightarrow> g a)"
  using assms(2)
proof (induction kvs rule: rev_induct)
  case Nil
  then show ?case by simp
next
  case (snoc x kvs)
  obtain j a where x: "x = (j, a)" by (cases x)
  from snoc.prems have d: "distinct (map fst kvs)" and new: "j \<notin> fst ` set kvs"
    by (simp_all add: x)
  show ?case
  proof (cases "j = k")
    case True
    with new have "map_of kvs k = None" by (simp add: map_of_eq_None_iff)
    with True show ?thesis using snoc.IH [OF d] by (simp add: x step map_add_def)
  next
    case False
    then show ?thesis
      using snoc.IH [OF d] by (simp add: x step map_add_def split: option.splits)
  qed
qed

lemma assigned_field:
  assumes step: "\<And>st j a. F (fst (apply_gen st (j, a))) = (if j = k then g a else F (fst st))"
  shows "F (fst (apply_generators (defaults sample, sample) (effectiveGens zone presetZone))) =
     (if has_op k zone \<or> has_op k presetZone
      then g (zone_sum k zone + zone_sum k presetZone) else F (defaults sample))"
  using foldl_apply_gen_assign [of F k g "sort_key fst (effectiveGens zone presetZone)",
      OF step sort_key_fst_distinct(1) [OF distinct_effectiveGens]]
  by (simp add: apply_generators_def sort_key_fst_distinct(2) [OF distinct_effectiveGens]
      map_of_effectiveGens)

text \<open>What one step of the \<^verbatim>\<open>switch\<close> does to each parameter.\<close>

lemma apply_gen_direct:
  shows "modLfoToPitch (fst (apply_gen st (j, a))) = (if j = 5 then real_of_int a else modLfoToPitch (fst st))"
    and "vibLfoToPitch (fst (apply_gen st (j, a))) = (if j = 6 then real_of_int a else vibLfoToPitch (fst st))"
    and "modEnvToPitch (fst (apply_gen st (j, a))) = (if j = 7 then real_of_int a else modEnvToPitch (fst st))"
    and "filterFc (fst (apply_gen st (j, a))) = (if j = 8 then real_of_int a else filterFc (fst st))"
    and "filterQ (fst (apply_gen st (j, a))) = (if j = 9 then real_of_int a else filterQ (fst st))"
    and "modLfoToFilterFc (fst (apply_gen st (j, a))) = (if j = 10 then real_of_int a else modLfoToFilterFc (fst st))"
    and "modEnvToFilterFc (fst (apply_gen st (j, a))) = (if j = 11 then real_of_int a else modEnvToFilterFc (fst st))"
    and "modLfoToVolume (fst (apply_gen st (j, a))) = (if j = 13 then real_of_int a else modLfoToVolume (fst st))"
    and "chorusSend (fst (apply_gen st (j, a))) = (if j = 15 then real_of_int a else chorusSend (fst st))"
    and "reverbSend (fst (apply_gen st (j, a))) = (if j = 16 then real_of_int a else reverbSend (fst st))"
    and "pan (fst (apply_gen st (j, a))) = (if j = 17 then real_of_int a else pan (fst st))"
    and "freqModLfo (fst (apply_gen st (j, a))) = (if j = 22 then real_of_int a else freqModLfo (fst st))"
    and "freqVibLfo (fst (apply_gen st (j, a))) = (if j = 24 then real_of_int a else freqVibLfo (fst st))"
    and "sustainModEnv (fst (apply_gen st (j, a))) = (if j = 29 then real_of_int a else sustainModEnv (fst st))"
    and "sustainVolEnv (fst (apply_gen st (j, a))) = (if j = 37 then real_of_int a else sustainVolEnv (fst st))"
    and "coarseTune (fst (apply_gen st (j, a))) = (if j = 51 then real_of_int a else coarseTune (fst st))"
    and "fineTune (fst (apply_gen st (j, a))) = (if j = 52 then real_of_int a else fineTune (fst st))"
    and "sampleModes (fst (apply_gen st (j, a))) = (if j = 54 then real_of_int a else sampleModes (fst st))"
    and "scaleTune (fst (apply_gen st (j, a))) = (if j = 56 then real_of_int a else scaleTune (fst st))"
    and "rootKey (fst (apply_gen st (j, a))) = (if j = 58 then real_of_int a else rootKey (fst st))"
  by (simp_all add: apply_gen_def Let_def)

lemma apply_gen_time:
  shows "delayModLfo (fst (apply_gen st (j, a))) =
           (if j = 21 then 2 powr (real_of_int a / 1200) else delayModLfo (fst st))"
    and "delayVibLfo (fst (apply_gen st (j, a))) =
           (if j = 23 then 2 powr (real_of_int a / 1200) else delayVibLfo (fst st))"
    and "delayModEnv (fst (apply_gen st (j, a))) =
           (if j = 25 then 2 powr (real_of_int a / 1200) else delayModEnv (fst st))"
    and "attackModEnv (fst (apply_gen st (j, a))) =
           (if j = 26 then 2 powr (real_of_int a / 1200) else attackModEnv (fst st))"
    and "holdModEnv (fst (apply_gen st (j, a))) =
           (if j = 27 then 2 powr (real_of_int a / 1200) else holdModEnv (fst st))"
    and "decayModEnv (fst (apply_gen st (j, a))) =
           (if j = 28 then 2 powr (real_of_int a / 1200) else decayModEnv (fst st))"
    and "releaseModEnv (fst (apply_gen st (j, a))) =
           (if j = 30 then 2 powr (real_of_int a / 1200) else releaseModEnv (fst st))"
    and "delayVolEnv (fst (apply_gen st (j, a))) =
           (if j = 33 then 2 powr (real_of_int a / 1200) else delayVolEnv (fst st))"
    and "attackVolEnv (fst (apply_gen st (j, a))) =
           (if j = 34 then 2 powr (real_of_int a / 1200) else attackVolEnv (fst st))"
    and "holdVolEnv (fst (apply_gen st (j, a))) =
           (if j = 35 then 2 powr (real_of_int a / 1200) else holdVolEnv (fst st))"
    and "decayVolEnv (fst (apply_gen st (j, a))) =
           (if j = 36 then 2 powr (real_of_int a / 1200) else decayVolEnv (fst st))"
    and "releaseVolEnv (fst (apply_gen st (j, a))) =
           (if j = 38 then 2 powr (real_of_int a / 1200) else releaseVolEnv (fst st))"
  by (simp_all add: apply_gen_def Let_def)

lemma apply_gen_atten:
  "atten (fst (apply_gen st (j, a))) =
     (if j = 48 then atten (fst st) + real_of_int a / 10 else atten (fst st))"
  by (simp add: apply_gen_def Let_def)

lemma added_field:
  fixes F :: "VoiceParams \<Rightarrow> real"
  assumes step: "\<And>st j a. F (fst (apply_gen st (j, a))) = (if j = k then F (fst st) + g a else F (fst st))"
  shows "F (fst (apply_generators (defaults sample, sample) (effectiveGens zone presetZone))) =
     F (defaults sample) +
     (if has_op k zone \<or> has_op k presetZone
      then g (zone_sum k zone + zone_sum k presetZone) else 0)"
  using foldl_apply_gen_add [of F k g "sort_key fst (effectiveGens zone presetZone)",
      OF step sort_key_fst_distinct(1) [OF distinct_effectiveGens]]
  by (simp add: apply_generators_def sort_key_fst_distinct(2) [OF distinct_effectiveGens]
      map_of_effectiveGens)

lemmas assigned_direct =
  assigned_field [of modLfoToPitch 5 real_of_int, OF apply_gen_direct(1)]
  assigned_field [of vibLfoToPitch 6 real_of_int, OF apply_gen_direct(2)]
  assigned_field [of modEnvToPitch 7 real_of_int, OF apply_gen_direct(3)]
  assigned_field [of filterFc 8 real_of_int, OF apply_gen_direct(4)]
  assigned_field [of filterQ 9 real_of_int, OF apply_gen_direct(5)]
  assigned_field [of modLfoToFilterFc 10 real_of_int, OF apply_gen_direct(6)]
  assigned_field [of modEnvToFilterFc 11 real_of_int, OF apply_gen_direct(7)]
  assigned_field [of modLfoToVolume 13 real_of_int, OF apply_gen_direct(8)]
  assigned_field [of chorusSend 15 real_of_int, OF apply_gen_direct(9)]
  assigned_field [of reverbSend 16 real_of_int, OF apply_gen_direct(10)]
  assigned_field [of pan 17 real_of_int, OF apply_gen_direct(11)]
  assigned_field [of freqModLfo 22 real_of_int, OF apply_gen_direct(12)]
  assigned_field [of freqVibLfo 24 real_of_int, OF apply_gen_direct(13)]
  assigned_field [of sustainModEnv 29 real_of_int, OF apply_gen_direct(14)]
  assigned_field [of sustainVolEnv 37 real_of_int, OF apply_gen_direct(15)]
  assigned_field [of coarseTune 51 real_of_int, OF apply_gen_direct(16)]
  assigned_field [of fineTune 52 real_of_int, OF apply_gen_direct(17)]
  assigned_field [of sampleModes 54 real_of_int, OF apply_gen_direct(18)]
  assigned_field [of scaleTune 56 real_of_int, OF apply_gen_direct(19)]
  assigned_field [of rootKey 58 real_of_int, OF apply_gen_direct(20)]

lemmas assigned_time =
  assigned_field [of delayModLfo 21 "\<lambda>a. 2 powr (real_of_int a / 1200)", OF apply_gen_time(1)]
  assigned_field [of delayVibLfo 23 "\<lambda>a. 2 powr (real_of_int a / 1200)", OF apply_gen_time(2)]
  assigned_field [of delayModEnv 25 "\<lambda>a. 2 powr (real_of_int a / 1200)", OF apply_gen_time(3)]
  assigned_field [of attackModEnv 26 "\<lambda>a. 2 powr (real_of_int a / 1200)", OF apply_gen_time(4)]
  assigned_field [of holdModEnv 27 "\<lambda>a. 2 powr (real_of_int a / 1200)", OF apply_gen_time(5)]
  assigned_field [of decayModEnv 28 "\<lambda>a. 2 powr (real_of_int a / 1200)", OF apply_gen_time(6)]
  assigned_field [of releaseModEnv 30 "\<lambda>a. 2 powr (real_of_int a / 1200)", OF apply_gen_time(7)]
  assigned_field [of delayVolEnv 33 "\<lambda>a. 2 powr (real_of_int a / 1200)", OF apply_gen_time(8)]
  assigned_field [of attackVolEnv 34 "\<lambda>a. 2 powr (real_of_int a / 1200)", OF apply_gen_time(9)]
  assigned_field [of holdVolEnv 35 "\<lambda>a. 2 powr (real_of_int a / 1200)", OF apply_gen_time(10)]
  assigned_field [of decayVolEnv 36 "\<lambda>a. 2 powr (real_of_int a / 1200)", OF apply_gen_time(11)]
  assigned_field [of releaseVolEnv 38 "\<lambda>a. 2 powr (real_of_int a / 1200)", OF apply_gen_time(12)]

lemma zone_sum_absent: "\<not> has_op k zone \<Longrightarrow> zone_sum k zone = 0"
  by (simp add: has_op_def zone_sum_def filter_op_empty)

lemma or_zero_effectiveGens:
  "or_zero (map_of (effectiveGens zone presetZone) k) = zone_sum k zone + zone_sum k presetZone"
  by (simp add: map_of_effectiveGens zone_sum_absent)

text \<open>
  The address operators are added to the fields of the sample: the amounts of the operators
  0 to 3 as they are, those of 4, 12, 14 and 18 in units of 32768. The other fields of the
  sample are not written.
\<close>

lemma foldl_apply_gen_offsets:
  fixes F :: "Sample \<Rightarrow> int"
  assumes step: "\<And>st j a. F (snd (apply_gen st (j, a))) =
                   F (snd st) + (if j = k1 then a else if j = k2 then a * 32768 else 0)"
    and "k1 \<noteq> k2" and "distinct (map fst kvs)"
  shows "F (snd (foldl apply_gen st kvs)) =
           F (snd st) + or_zero (map_of kvs k1) + or_zero (map_of kvs k2) * 32768"
  using assms(3)
proof (induction kvs rule: rev_induct)
  case Nil
  then show ?case by simp
next
  case (snoc x kvs)
  obtain j a where x: "x = (j, a)" by (cases x)
  from snoc.prems have d: "distinct (map fst kvs)" and new: "j \<notin> fst ` set kvs"
    by (simp_all add: x)
  from new have none: "map_of kvs j = None" by (simp add: map_of_eq_None_iff)
  show ?case
    using snoc.IH [OF d] none assms(2)
    by (auto simp: x step map_add_def split: option.splits)
qed

lemma foldl_apply_gen_keeps:
  assumes step: "\<And>st g. F (snd (apply_gen st g)) = F (snd st)"
  shows "F (snd (foldl apply_gen st kvs)) = F (snd st)"
  by (induction kvs rule: rev_induct) (simp_all add: step)

lemma apply_gen_offsets:
  shows "start (snd (apply_gen st (j, a))) =
           start (snd st) + (if j = 0 then a else if j = 4 then a * 32768 else 0)"
    and "sample_end (snd (apply_gen st (j, a))) =
           sample_end (snd st) + (if j = 1 then a else if j = 12 then a * 32768 else 0)"
    and "startLoop (snd (apply_gen st (j, a))) =
           startLoop (snd st) + (if j = 2 then a else if j = 14 then a * 32768 else 0)"
    and "endLoop (snd (apply_gen st (j, a))) =
           endLoop (snd st) + (if j = 3 then a else if j = 18 then a * 32768 else 0)"
  by (simp_all add: apply_gen_def Let_def)

lemma apply_gen_keeps:
  shows "sample_name (snd (apply_gen st g)) = sample_name (snd st)"
    and "sampleRate (snd (apply_gen st g)) = sampleRate (snd st)"
    and "originalKey (snd (apply_gen st g)) = originalKey (snd st)"
    and "correction (snd (apply_gen st g)) = correction (snd st)"
    and "sampleLink (snd (apply_gen st g)) = sampleLink (snd st)"
    and "sampleType (snd (apply_gen st g)) = sampleType (snd st)"
  by (simp_all add: apply_gen_def Let_def)

lemma sample_after_generators:
  fixes sample zone presetZone velocity state
  defines "s' \<equiv> snd (resolve_voice sample zone presetZone velocity state)"
  defines "both \<equiv> \<lambda>k. zone_sum k zone + zone_sum k presetZone"
  shows "start s' = start sample + both 0 + both 4 * 32768"
    and "sample_end s' = sample_end sample + both 1 + both 12 * 32768"
    and "startLoop s' = startLoop sample + both 2 + both 14 * 32768"
    and "endLoop s' = endLoop sample + both 3 + both 18 * 32768"
    and "sample_name s' = sample_name sample" and "sampleRate s' = sampleRate sample"
    and "originalKey s' = originalKey sample" and "correction s' = correction sample"
    and "sampleLink s' = sampleLink sample" and "sampleType s' = sampleType sample"
proof -
  let ?eg = "sort_key fst (effectiveGens zone presetZone)"
  have d: "distinct (map fst ?eg)"
    by (rule sort_key_fst_distinct(1) [OF distinct_effectiveGens])
  have m: "map_of ?eg = map_of (effectiveGens zone presetZone)"
    by (rule sort_key_fst_distinct(2) [OF distinct_effectiveGens])
  have s': "s' = snd (foldl apply_gen (defaults sample, sample) ?eg)"
    by (simp add: s'_def resolve_voice_def apply_generators_def Let_def)
  show "start s' = start sample + both 0 + both 4 * 32768"
    unfolding s' both_def
    using foldl_apply_gen_offsets [of start 0 4 ?eg, OF apply_gen_offsets(1) _ d]
    by (simp add: m or_zero_effectiveGens)
  show "sample_end s' = sample_end sample + both 1 + both 12 * 32768"
    unfolding s' both_def
    using foldl_apply_gen_offsets [of sample_end 1 12 ?eg, OF apply_gen_offsets(2) _ d]
    by (simp add: m or_zero_effectiveGens)
  show "startLoop s' = startLoop sample + both 2 + both 14 * 32768"
    unfolding s' both_def
    using foldl_apply_gen_offsets [of startLoop 2 14 ?eg, OF apply_gen_offsets(3) _ d]
    by (simp add: m or_zero_effectiveGens)
  show "endLoop s' = endLoop sample + both 3 + both 18 * 32768"
    unfolding s' both_def
    using foldl_apply_gen_offsets [of endLoop 3 18 ?eg, OF apply_gen_offsets(4) _ d]
    by (simp add: m or_zero_effectiveGens)
  show "sample_name s' = sample_name sample" "sampleRate s' = sampleRate sample"
    "originalKey s' = originalKey sample" "correction s' = correction sample"
    "sampleLink s' = sampleLink sample" "sampleType s' = sampleType sample"
    unfolding s'
    by (simp_all add: foldl_apply_gen_keeps [of _ _ ?eg, OF apply_gen_keeps(1)]
        foldl_apply_gen_keeps [of _ _ ?eg, OF apply_gen_keeps(2)]
        foldl_apply_gen_keeps [of _ _ ?eg, OF apply_gen_keeps(3)]
        foldl_apply_gen_keeps [of _ _ ?eg, OF apply_gen_keeps(4)]
        foldl_apply_gen_keeps [of _ _ ?eg, OF apply_gen_keeps(5)]
        foldl_apply_gen_keeps [of _ _ ?eg, OF apply_gen_keeps(6)])
qed

section \<open>Unfolding the examples\<close>

lemmas example_defs =
  example_bank_def example_samples_def example_inst_zone_def example_preset_zone_def
  dangling_bank_def dangling_zone_def missing_sample_bank_def missing_sample_zone_def
  offset_bank_def offset_zone_def

section \<open>What a note trigger writes\<close>

text \<open>
  \<^verbatim>\<open>playNote\<close> writes the sample table and nothing else of the parser: the instruments,
  the presets and the number of samples stay as they are.
\<close>

lemma play_loop_frame:
  "instruments (snd (play_loop backend key velocity startTime state p stops ms)) = instruments p \<and>
   presets (snd (play_loop backend key velocity startTime state p stops ms)) = presets p \<and>
   length (samples (snd (play_loop backend key velocity startTime state p stops ms)))
     = length (samples p)"
proof (induction ms arbitrary: p stops)
  case Nil
  then show ?case by simp
next
  case (Cons m ms)
  show ?case
  proof (cases "match_sample m")
    case None
    then show ?thesis by simp
  next
    case (Some si)
    let ?r = "resolve_voice (samples p ! si) (match_zone m) (match_presetZone m) velocity state"
    let ?p = "p\<lparr>samples := (samples p)[si := snd ?r]\<rparr>"
    show ?thesis
    proof (cases "build_buffer ?p (snd ?r)")
      case (Inl e)
      with Some show ?thesis by (simp add: Let_def)
    next
      case buf: (Inr buffer)
      show ?thesis
      proof (cases "backend ?p (fst ?r) buffer si key velocity startTime state")
        case (Inl e)
        with Some buf show ?thesis by (simp add: Let_def)
      next
        case (Inr stop)
        with Some buf show ?thesis
          using Cons.IH [of ?p "stops @ [stop]"] by (simp add: Let_def)
      qed
    qed
  qed
qed

text \<open>
  After the first match of the loop the sample of the match is in the table as the
  \<^verbatim>\<open>switch\<close> left it, whether the rest of the loop body returns or throws.
\<close>

lemma play_loop_single:
  assumes "match_sample m = Some si" and "si < length (samples p)"
  shows "samples (snd (play_loop backend key velocity startTime state p stops [m])) ! si =
         snd (resolve_voice (samples p ! si) (match_zone m) (match_presetZone m) velocity state)"
proof -
  let ?r = "resolve_voice (samples p ! si) (match_zone m) (match_presetZone m) velocity state"
  let ?p = "p\<lparr>samples := (samples p)[si := snd ?r]\<rparr>"
  have "snd (play_loop backend key velocity startTime state p stops [m]) = ?p"
    using assms(1) by (simp add: Let_def split: sum.splits)
  then show ?thesis using assms(2) by simp
qed

lemma playNote_frame:
  "instruments (snd (playNote backend p key velocity startTime state)) = instruments p \<and>
   presets (snd (playNote backend p key velocity startTime state)) = presets p \<and>
   length (samples (snd (playNote backend p key velocity startTime state))) = length (samples p)"
  using play_loop_frame [of backend key velocity startTime state p "[]"]
  by (simp add: playNote_def split: sum.splits)

text \<open>
  Zone resolution reads the instrument table and the length of the sample table, and not
  the samples themselves.
\<close>

lemma inst_matches_cong:
  assumes "length (samples p) = length (samples q)"
  shows "inst_matches p zone key velocity inst = inst_matches q zone key velocity inst"
  by (simp add: inst_matches_def js_index_def assms cong: if_cong)

lemma preset_zones_loop_cong:
  assumes "instruments p = instruments q" and "length (samples p) = length (samples q)"
  shows "preset_zones_loop p key velocity acc zones = preset_zones_loop q key velocity acc zones"
proof (induction zones arbitrary: acc)
  case Nil
  then show ?case by simp
next
  case (Cons zone zones)
  have "preset_zone_step p key velocity acc zone = preset_zone_step q key velocity acc zone"
    using assms
    by (auto simp: preset_zone_step_def inst_matches_cong [of p q] split: option.splits)
  then show ?case by (simp add: Cons.IH)
qed

lemma getZonesForNote_cong:
  assumes "instruments p = instruments q" and "length (samples p) = length (samples q)"
  shows "getZonesForNote p preset key velocity = getZonesForNote q preset key velocity"
  by (simp add: getZonesForNote_def preset_zones_loop_cong [OF assms] split: option.splits)

lemma playNote_zones:
  assumes "getZonesForNote p (js_lookup (presets p) (int (ch_preset state))) key velocity
             = Inr zones"
    and "zones \<noteq> []"
  shows "playNote backend p key velocity startTime state =
         play_loop backend key velocity startTime state p [] zones"
  using assms by (simp add: playNote_def)

lemma offset_bank_zones:
  "getZonesForNote offset_bank (js_lookup (presets offset_bank) (int (ch_preset initial_channel)))
     60 100
   = Inr [\<lparr>match_zone = offset_zone, match_sample = Some 0,
           match_presetZone = example_preset_zone\<rparr>]"
  by (simp add: getZonesForNote_def preset_zone_step_def inst_matches_def in_ranges_def
      js_lookup_def js_index_def example_defs initial_channel_def)

text \<open>The time fixes floor two of the twelve time parameters and leave the other ten.\<close>

lemma time_fixes_floor:
  "minTime \<le> delayVolEnv (time_fixes ps) \<and> minTime \<le> attackVolEnv (time_fixes ps) \<and>
   holdVolEnv (time_fixes ps) = holdVolEnv ps \<and> decayVolEnv (time_fixes ps) = decayVolEnv ps \<and>
   releaseVolEnv (time_fixes ps) = releaseVolEnv ps \<and>
   delayModEnv (time_fixes ps) = delayModEnv ps \<and> attackModEnv (time_fixes ps) = attackModEnv ps \<and>
   holdModEnv (time_fixes ps) = holdModEnv ps \<and> decayModEnv (time_fixes ps) = decayModEnv ps \<and>
   releaseModEnv (time_fixes ps) = releaseModEnv ps \<and>
   delayModLfo (time_fixes ps) = delayModLfo ps \<and> delayVibLfo (time_fixes ps) = delayVibLfo ps"
  by (simp add: time_fixes_def Let_def)

section \<open>The events of a parsed file and the tables of the scheduler\<close>

text \<open>Every event that \<^verbatim>\<open>parseMIDI\<close> returns has the shape that the scheduler expects.\<close>

lemma low_nibble: "(n::nat) AND 0x0F < 16"
proof -
  have "n AND 15 = take_bit 4 n"
    by (simp add: take_bit_eq_mask mask_eq_exp_minus_1)
  then show ?thesis by (simp add: take_bit_eq_mod)
qed

lemma read_event_wf:
  assumes "read_event view offset runningStatus = Inr r"
  shows "wf_event (fst r)"
  using assms low_nibble
  by (auto simp: read_event_def Let_def and_then_eq_Inr wf_event_def split: if_splits)

lemma read_track_wf:
  "read_track view trackEnd offset runningStatus track = Inr track' \<Longrightarrow>
   \<forall>ev \<in> set track. wf_event ev \<Longrightarrow> \<forall>ev \<in> set track'. wf_event ev"
proof (induction view trackEnd offset runningStatus track rule: read_track.induct)
  case (1 view trackEnd offset runningStatus track)
  show ?case
  proof (cases "offset < trackEnd")
    case False
    with "1.prems" show ?thesis by (subst (asm) read_track.simps) simp
  next
    case True
    from "1.prems"(1) True obtain r where
      r: "read_event view offset runningStatus = Inr r" and
      rest: "read_track view trackEnd (fst (snd r)) (snd (snd r)) (track @ [fst r]) = Inr track'"
      by (subst (asm) read_track.simps) (auto simp: and_then_eq_Inr)
    have "\<forall>ev \<in> set (track @ [fst r]). wf_event ev"
      using "1.prems"(2) read_event_wf [OF r] by simp
    from "1.IH" [OF True r rest this] show ?thesis .
  qed
qed

lemma read_tracks_wf:
  "read_tracks view n offset tracks = Inr tracks' \<Longrightarrow>
   \<forall>track \<in> set tracks. \<forall>ev \<in> set track. wf_event ev \<Longrightarrow>
   \<forall>track \<in> set tracks'. \<forall>ev \<in> set track. wf_event ev"
proof (induction n arbitrary: offset tracks)
  case 0
  then show ?case by simp
next
  case (Suc n)
  from Suc.prems(1) obtain len track where
    track: "read_track view (offset + 8 + len) (offset + 8) 0 [] = Inr track" and
    rest: "read_tracks view n (offset + 8 + len) (tracks @ [track]) = Inr tracks'"
    by (auto simp: and_then_eq_Inr split: if_splits)
  have "\<forall>ev \<in> set track. wf_event ev"
    using read_track_wf [OF track] by simp
  with Suc.prems(2) have "\<forall>t \<in> set (tracks @ [track]). \<forall>ev \<in> set t. wf_event ev"
    by simp
  from Suc.IH [OF rest this] show ?case .
qed

lemma with_ticks_events: "snd ` set (with_ticks tick evs) = set evs"
  by (induction evs arbitrary: tick) auto

lemma parseMIDI_wf:
  assumes "parseMIDI view = Inr midi"
  shows "\<forall>tev \<in> set (timeline midi). wf_event (snd tev)"
proof -
  from assms obtain ntracks where
    "read_tracks view ntracks 14 [] = Inr (midi_tracks midi)"
    by (auto simp: parseMIDI_def and_then_eq_Inr split: if_splits)
  from read_tracks_wf [OF this] have wf: "\<forall>track \<in> set (midi_tracks midi). \<forall>ev \<in> set track. wf_event ev"
    by simp
  show ?thesis
  proof
    fix tev assume "tev \<in> set (timeline midi)"
    then obtain track where t: "track \<in> set (midi_tracks midi)" and "tev \<in> set (with_ticks 0 track)"
      by (auto simp: timeline_def)
    then have "snd tev \<in> set track"
      using with_ticks_events [of 0 track] by force
    with wf t show "wf_event (snd tev)" by blast
  qed
qed

text \<open>
  The advance of the play head changes the time and the last tick only; an event leaves the
  sixteen entries of \<^verbatim>\<open>activeNotes\<close> and \<^verbatim>\<open>channelState\<close> in place.
\<close>

lemma advance_keeps:
  "activeNotes (advance division tick s) = activeNotes s"
  "channelState (advance division tick s) = channelState s"
  "parser (advance division tick s) = parser s"
  "stopped (advance division tick s) = stopped s"
  "tempo (advance division tick s) = tempo s"
  by (simp_all add: advance_def Let_def)


lemma dispatch_lengths:
  assumes "dispatch backend stopper division s tev = Inr s'"
  shows "length (activeNotes s') = length (activeNotes s) \<and>
         length (channelState s') = length (channelState s)"
  using assms
  by (auto simp: dispatch_def Let_def note_off_def note_on_def update_channel_def advance_keeps
      split: EventBody.splits if_splits option.splits prod.splits sum.splits)

lemma run_events_lengths:
  "run_events backend stopper division s tevs = Inr s' \<Longrightarrow>
   length (activeNotes s') = length (activeNotes s) \<and>
   length (channelState s') = length (channelState s)"
proof (induction tevs arbitrary: s)
  case Nil
  then show ?case by simp
next
  case (Cons tev tevs)
  then show ?case
    by (auto simp: and_then_eq_Inr dest!: dispatch_lengths)
qed

text \<open>The two MIDI files of the examples, parsed.\<close>

lemma parse_header_midi:
  "parseMIDI header_midi = Inr \<lparr>midi_format = 0, midi_division = 480, midi_tracks = []\<rparr>"
  by code_simp

lemma parse_example_midi:
  "parseMIDI example_midi
     = Inr \<lparr>midi_format = 0, midi_division = 480, midi_tracks = [example_events]\<rparr>"
  by code_simp

lemma timeline_example:
  "timeline \<lparr>midi_format = 0, midi_division = 480, midi_tracks = [example_events]\<rparr>
     = [(0, example_events ! 0), (480, example_events ! 1), (480, example_events ! 2),
        (480, example_events ! 3)]"
  by (simp add: timeline_def example_events_def)

section \<open>Claim C1: defaults and the sums of the zones\<close>

text \<open>
  C1 says that the resolved value of every operator is its default plus the amounts of the
  instrument zone plus the amounts of the preset zone, so that the default cutoff 13500
  with \<open>-2000\<close> and \<open>-500\<close> resolves to 11000. The source adds the amounts of the two
  zones to each other, starting from 0, and the \<^verbatim>\<open>switch\<close> then assigns the sum to the
  parameter, in place of the default. For the zones of the example bank the cutoff is
  \<open>-2500\<close> after the \<^verbatim>\<open>switch\<close>, and still so after the default modulators at
  velocity 127, where the modulators add nothing to it.
\<close>

theorem aggregation_replaces_default_counterexample:
  "filterFc (defaults (example_samples ! 0)) = 13500 \<and>
   zone_sum 8 example_inst_zone = - 2000 \<and> zone_sum 8 example_preset_zone = - 500 \<and>
   filterFc (fst (apply_generators (defaults (example_samples ! 0), example_samples ! 0)
                    (effectiveGens example_inst_zone example_preset_zone))) = - 2500 \<and>
   filterFc (fst (resolve_voice (example_samples ! 0) example_inst_zone example_preset_zone
                    127 initial_channel)) = - 2500 \<and>
   (- 2500 :: real) \<noteq> 11000"
  by (simp add: resolve_voice_def apply_generators_def effectiveGens_def add_gen_def
      example_inst_zone_def example_preset_zone_def example_samples_def defaults_def
      apply_gen_def default_modulators_def time_fixes_def zone_sum_def initial_channel_def)

text \<open>
  C1, amended. For every instrument zone, preset zone and sample, and every operator that
  the \<^verbatim>\<open>switch\<close> assigns to a parameter: when the operator occurs in one of the two
  zones, the parameter is the sum of the amounts of the instrument zone and of the preset
  zone for that operator (converted to seconds as \<open>2^(sum/1200)\<close> for the time
  parameters), and the default is replaced; when it occurs in neither, the parameter keeps
  its default. Only the attenuation (operator 48) is added to its default, as a tenth of
  the sum. In particular the cutoff with \<open>-2000\<close> and \<open>-500\<close> is \<open>-2500\<close>.
\<close>

theorem aggregation_sums_zone_amounts:
  "(\<forall>(k, field) \<in> set direct_params.
      field (fst (apply_generators (defaults sample, sample) (effectiveGens zone presetZone))) =
        (if has_op k zone \<or> has_op k presetZone
         then real_of_int (zone_sum k zone + zone_sum k presetZone)
         else field (defaults sample)))
   \<and> (\<forall>(k, field) \<in> set time_params.
      field (fst (apply_generators (defaults sample, sample) (effectiveGens zone presetZone))) =
        (if has_op k zone \<or> has_op k presetZone
         then 2 powr (real_of_int (zone_sum k zone + zone_sum k presetZone) / 1200)
         else field (defaults sample)))
   \<and> atten (fst (apply_generators (defaults sample, sample) (effectiveGens zone presetZone))) =
        atten (defaults sample) +
        (if has_op 48 zone \<or> has_op 48 presetZone
         then real_of_int (zone_sum 48 zone + zone_sum 48 presetZone) / 10 else 0)"
proof (intro conjI)
  show "\<forall>(k, field) \<in> set direct_params.
      field (fst (apply_generators (defaults sample, sample) (effectiveGens zone presetZone))) =
        (if has_op k zone \<or> has_op k presetZone
         then real_of_int (zone_sum k zone + zone_sum k presetZone)
         else field (defaults sample))"
    unfolding direct_params_def by (simp only: list.set ball_simps prod.case assigned_direct)
  show "\<forall>(k, field) \<in> set time_params.
      field (fst (apply_generators (defaults sample, sample) (effectiveGens zone presetZone))) =
        (if has_op k zone \<or> has_op k presetZone
         then 2 powr (real_of_int (zone_sum k zone + zone_sum k presetZone) / 1200)
         else field (defaults sample))"
    unfolding time_params_def by (simp only: list.set ball_simps prod.case assigned_time)
  show "atten (fst (apply_generators (defaults sample, sample) (effectiveGens zone presetZone))) =
        atten (defaults sample) +
        (if has_op 48 zone \<or> has_op 48 presetZone
         then real_of_int (zone_sum 48 zone + zone_sum 48 presetZone) / 10 else 0)"
    by (rule added_field [of atten 48 "\<lambda>a. real_of_int a / 10", OF apply_gen_atten])
qed

theorem aggregation_sums_zone_amounts_witness:
  "has_op 8 example_inst_zone \<and>
   filterFc (fst (apply_generators (defaults (example_samples ! 0), example_samples ! 0)
                    (effectiveGens example_inst_zone example_preset_zone)))
     = real_of_int (- 2000 + - 500) \<and>
   \<not> has_op 35 example_inst_zone \<and> \<not> has_op 35 example_preset_zone \<and>
   holdVolEnv (fst (apply_generators (defaults (example_samples ! 0), example_samples ! 0)
                    (effectiveGens example_inst_zone example_preset_zone)))
     = holdVolEnv (defaults (example_samples ! 0))"
proof -
  let ?st = "apply_generators (defaults (example_samples ! 0), example_samples ! 0)
               (effectiveGens example_inst_zone example_preset_zone)"
  note all = aggregation_sums_zone_amounts
    [of "example_samples ! 0" example_inst_zone example_preset_zone]
  have m8: "(8, filterFc) \<in> set direct_params" by (simp add: direct_params_def)
  have m35: "(35, holdVolEnv) \<in> set time_params" by (simp add: time_params_def)
  have h8: "has_op 8 example_inst_zone"
    and h35: "\<not> has_op 35 example_inst_zone" "\<not> has_op 35 example_preset_zone"
    and sums: "zone_sum 8 example_inst_zone = - 2000" "zone_sum 8 example_preset_zone = - 500"
    by (simp_all add: has_op_def zone_sum_def example_inst_zone_def example_preset_zone_def)
  from all m8 have "filterFc (fst ?st) =
      (if has_op 8 example_inst_zone \<or> has_op 8 example_preset_zone
       then real_of_int (zone_sum 8 example_inst_zone + zone_sum 8 example_preset_zone)
       else filterFc (defaults (example_samples ! 0)))"
    by blast
  then have f: "filterFc (fst ?st) = real_of_int (- 2000 + - 500)"
    using h8 sums by simp
  from all m35 have "holdVolEnv (fst ?st) =
      (if has_op 35 example_inst_zone \<or> has_op 35 example_preset_zone
       then 2 powr (real_of_int (zone_sum 35 example_inst_zone + zone_sum 35 example_preset_zone) / 1200)
       else holdVolEnv (defaults (example_samples ! 0)))"
    by blast
  then have h: "holdVolEnv (fst ?st) = holdVolEnv (defaults (example_samples ! 0))"
    using h35 by simp
  show ?thesis using h8 h35 f h by simp
qed

section \<open>Claim C2: the tables after a note trigger\<close>

text \<open>
  C2. The parsed tables are to stay unchanged by any note trigger, so that two identical
  triggers resolve identical parameters. In the source, the cases 0 to 4, 12, 14 and 18 of
  the \<^verbatim>\<open>switch\<close> assign to the fields of \<^verbatim>\<open>sample\<close>, which is the object stored in
  \<^verbatim>\<open>this.parser.samples\<close>: the offset of a zone is added to the table entry, once per
  trigger. In a bank whose instrument zone has \<open>startAddrsOffset = 1\<close>, the sample starts
  at 0 after parsing, at 1 after one note and at 2 after the same note again, whatever the
  audio backend does with the voices; with a backend that accepts them the trigger returns
  the closure of one voice.
\<close>

theorem playNote_mutates_sample_table:
  "start (samples offset_bank ! 0) = 0 \<and>
   start (samples (snd (playNote backend offset_bank 60 100 startTime initial_channel)) ! 0) = 1 \<and>
   start (samples (snd (playNote backend
            (snd (playNote backend offset_bank 60 100 startTime initial_channel))
            60 100 startTime initial_channel)) ! 0) = 2 \<and>
   fst (playNote silent_backend offset_bank 60 100 (Some 0) initial_channel) = Inr [()]"
proof -
  let ?m = "\<lparr>match_zone = offset_zone, match_sample = Some 0,
              match_presetZone = example_preset_zone\<rparr>"
  let ?p1 = "snd (playNote backend offset_bank 60 100 startTime initial_channel)"
  have sums: "zone_sum 0 offset_zone = 1" "zone_sum 0 example_preset_zone = 0"
    "zone_sum 4 offset_zone = 0" "zone_sum 4 example_preset_zone = 0"
    by (simp_all add: zone_sum_def example_defs)
  have step: "start (snd (resolve_voice s offset_zone example_preset_zone 100 initial_channel))
      = start s + 1" for s
    using sample_after_generators(1) [of s offset_zone example_preset_zone 100 initial_channel]
    by (simp add: sums)
  have s0: "start (samples offset_bank ! 0) = 0"
    by (simp add: example_defs)
  have len0: "0 < length (samples offset_bank)"
    by (simp add: example_defs)
  have run1: "playNote backend offset_bank 60 100 startTime initial_channel =
      play_loop backend 60 100 startTime initial_channel offset_bank [] [?m]"
    by (rule playNote_zones [OF offset_bank_zones]) simp
  have s1: "start (samples ?p1 ! 0) = 1"
    unfolding run1
    using play_loop_single [of ?m 0 offset_bank backend 60 100 startTime initial_channel "[]"] len0
    by (simp add: step s0)
  have frame: "instruments ?p1 = instruments offset_bank" "presets ?p1 = presets offset_bank"
    "length (samples ?p1) = length (samples offset_bank)"
    using playNote_frame [of backend offset_bank 60 100 startTime initial_channel] by simp_all
  have zones1: "getZonesForNote ?p1 (js_lookup (presets ?p1) (int (ch_preset initial_channel)))
     60 100 = Inr [?m]"
    using getZonesForNote_cong [OF frame(1) frame(3)] offset_bank_zones
    by (simp add: frame(2))
  have run2: "playNote backend ?p1 60 100 startTime initial_channel =
      play_loop backend 60 100 startTime initial_channel ?p1 [] [?m]"
    by (rule playNote_zones [OF zones1]) simp
  have s2: "start (samples (snd (playNote backend ?p1 60 100 startTime initial_channel)) ! 0) = 2"
    unfolding run2
    using play_loop_single [of ?m 0 ?p1 backend 60 100 startTime initial_channel "[]"] len0
    by (simp add: step s1 frame(3))
  have "playNote silent_backend offset_bank 60 100 (Some 0) initial_channel =
      play_loop silent_backend 60 100 (Some 0) initial_channel offset_bank [] [?m]"
    by (rule playNote_zones [OF offset_bank_zones]) simp
  then have ok: "fst (playNote silent_backend offset_bank 60 100 (Some 0) initial_channel) = Inr [()]"
    by (simp add: resolve_voice_def apply_generators_def
      effectiveGens_def add_gen_def apply_gen_def example_defs Let_def
      build_buffer_def stereo_pair_def new_Float32Array_def sample_value_def
      for_loop_def upt_rec silent_backend_def)
  show ?thesis using s0 s1 s2 ok by simp
qed

section \<open>Claim C3: a declared size that passes the end\<close>

text \<open>
  C3 says that a chunk whose declared size makes its body extend past \<open>end\<close> makes the
  parse fail with a format or bounds error. The source has no such check: a leaf chunk is
  recorded with the size it declares, and the loop stops because the next offset is past
  \<open>end\<close>. Here a buffer of eight bytes holds the header of a chunk \<open>smpl\<close> that declares
  1000 bytes of data; the parse returns the mapping.
\<close>

theorem parseRIFF_oversized_leaf_counterexample:
  "parseRIFF (''smpl'' @ [CHR 0xE8, CHR 0x03, CHR 0x00, CHR 0x00]) 0 8
     = Inr [(''smpl'', Leaf 8 1000)]"
  by code_simp

text \<open>
  C3, amended. \<^verbatim>\<open>parseRIFF\<close> does not compare a declared size with \<open>end\<close> or with the
  length of the buffer. When the header of a leaf chunk lies in the buffer and its declared
  body extends past \<open>end\<close>, the parse returns the mapping that records the chunk with its
  data offset and its declared size. A parse fails only with the \<open>RangeError\<close> of a read of
  a header or of a form type outside the buffer.
\<close>

theorem parseRIFF_declared_size_unchecked:
  "(offset < end' \<and> readChunk view offset = Inr chunk \<and>
    chunk_id chunk \<noteq> ''RIFF'' \<and> chunk_id chunk \<noteq> ''LIST'' \<and> end' < chunk_end chunk
      \<longrightarrow> parseRIFF view offset end' = Inr [(chunk_id chunk, Leaf (offset + 8) (chunk_size chunk))])
   \<and> (parseRIFF view offset end' = Inl e \<longrightarrow> e = RangeError)"
proof (intro conjI impI)
  assume h: "offset < end' \<and> readChunk view offset = Inr chunk \<and>
    chunk_id chunk \<noteq> ''RIFF'' \<and> chunk_id chunk \<noteq> ''LIST'' \<and> end' < chunk_end chunk"
  then have lt: "offset < end'" and rc: "readChunk view offset = Inr chunk"
    and leaf: "\<not> (chunk_id chunk = ''RIFF'' \<or> chunk_id chunk = ''LIST'')"
    and past: "end' < chunk_end chunk"
    by simp_all
  have off: "chunk_offset chunk = offset + 8"
    using readChunk_Inr [OF rc] by simp
  have stop: "\<not> chunk_end chunk + chunk_size chunk mod 2 < end'"
    using past by simp
  have "parseRIFF_loop view end' (offset, []) =
        Inr (chunk_end chunk + chunk_size chunk mod 2,
             [(chunk_id chunk, Leaf (offset + 8) (chunk_size chunk))])"
    by (simp add: parseRIFF_loop_leaf [OF lt rc leaf] parseRIFF_loop_stop [OF stop] off)
  then show "parseRIFF view offset end' =
        Inr [(chunk_id chunk, Leaf (offset + 8) (chunk_size chunk))]"
    by (simp add: parseRIFF_def)
next
  assume "parseRIFF view offset end' = Inl e"
  then have "parseRIFF_loop view end' (offset, []) = Inl e"
    by (simp add: parseRIFF_def and_then_eq_Inl)
  then show "e = RangeError" by (rule parseRIFF_loop_error)
qed

theorem parseRIFF_declared_size_unchecked_witness:
  "readChunk (''data'' @ [CHR 0x64, CHR 0x00, CHR 0x00, CHR 0x00]) 0
     = Inr \<lparr>chunk_id = ''data'', chunk_size = 100, chunk_offset = 8, chunk_end = 108\<rparr> \<and>
   parseRIFF (''data'' @ [CHR 0x64, CHR 0x00, CHR 0x00, CHR 0x00]) 0 8
     = Inr [(''data'', Leaf 8 100)] \<and>
   parseRIFF ''RIFF'' 0 4 = Inl RangeError"
proof -
  let ?view = "''data'' @ [CHR 0x64, CHR 0x00, CHR 0x00, CHR 0x00]"
  let ?chunk = "\<lparr>chunk_id = ''data'', chunk_size = 100, chunk_offset = 8, chunk_end = 108\<rparr>"
  have rc: "readChunk ?view 0 = Inr ?chunk" by code_simp
  have "parseRIFF ?view 0 8 = Inr [(''data'', Leaf 8 100)]"
    using parseRIFF_declared_size_unchecked [of 0 8 ?view ?chunk] rc by simp
  moreover have "parseRIFF ''RIFF'' 0 4 = Inl RangeError"
  proof (cases "parseRIFF ''RIFF'' 0 4")
    case (Inl e)
    then show ?thesis
      using parseRIFF_declared_size_unchecked [of 0 4 "''RIFF''" ?chunk e] by simp
  next
    case (Inr m)
    moreover have "parseRIFF ''RIFF'' 0 4 = Inl RangeError" by code_simp
    ultimately show ?thesis by simp
  qed
  ultimately show ?thesis using rc by simp
qed

section \<open>Claim C4: references to instruments and samples that do not exist\<close>

text \<open>
  C4 says that zone resolution skips a zone whose instrument or sample index is out of
  range and still returns the matches of the valid zones. The source checks neither index.
  In the example bank the preset zone gives one match. With a second preset zone that
  refers to an instrument 7, the call throws a \<open>TypeError\<close> and the match of the first
  zone is lost. With an instrument zone that refers to a sample 9, the zone is not
  skipped: it is returned as a match whose sample is \<^verbatim>\<open>undefined\<close>.
\<close>

theorem getZonesForNote_dangling_counterexample:
  "getZonesForNote example_bank (js_lookup (presets example_bank) 0) 60 100
     = Inr [\<lparr>match_zone = example_inst_zone, match_sample = Some 0,
             match_presetZone = example_preset_zone\<rparr>] \<and>
   getZonesForNote dangling_bank (js_lookup (presets dangling_bank) 0) 60 100 = Inl TypeError \<and>
   getZonesForNote missing_sample_bank (js_lookup (presets missing_sample_bank) 0) 60 100
     = Inr [\<lparr>match_zone = missing_sample_zone, match_sample = None,
             match_presetZone = example_preset_zone\<rparr>]"
  by (simp add: getZonesForNote_def preset_zone_step_def inst_matches_def in_ranges_def
      js_lookup_def js_index_def example_defs)

text \<open>
  C4, amended. The source does not check the indices. When a preset zone that matches the
  key and velocity refers to an instrument outside the instrument table,
  \<^verbatim>\<open>getZonesForNote\<close> throws a \<open>TypeError\<close> and returns no match; otherwise it returns
  the matches of all preset zones, in order. An instrument zone that matches and refers to
  a sample outside the sample table is returned as a match with an \<^verbatim>\<open>undefined\<close>
  sample, and the loop of \<^verbatim>\<open>playNote\<close> throws a \<open>TypeError\<close> when it reaches that
  match, before it writes anything for it.
\<close>

theorem getZonesForNote_references_unchecked:
  "getZonesForNote p (Some preset) key velocity =
     (if \<exists>zone \<in> set (preset_zones preset). dangling p key velocity zone then Inl TypeError
      else Inr (concat (map (zone_matches p key velocity) (preset_zones preset))))
   \<and> (instZone \<in> set (inst_zones inst) \<and> in_ranges instZone key velocity \<and>
       sampleID instZone = Some i \<and> js_index (samples p) i = None \<longrightarrow>
         \<lparr>match_zone = instZone, match_sample = None, match_presetZone = zone\<rparr>
           \<in> set (inst_matches p zone key velocity inst))
   \<and> (match_sample m = None \<longrightarrow>
         play_loop backend key velocity startTime state p stopFunctions (m # ms)
           = (Inl TypeError, p))"
proof (intro conjI impI)
  show "getZonesForNote p (Some preset) key velocity =
     (if \<exists>zone \<in> set (preset_zones preset). dangling p key velocity zone then Inl TypeError
      else Inr (concat (map (zone_matches p key velocity) (preset_zones preset))))"
    by (simp only: getZonesForNote_def option.case preset_zones_loop_eq)
next
  assume "instZone \<in> set (inst_zones inst) \<and> in_ranges instZone key velocity \<and>
       sampleID instZone = Some i \<and> js_index (samples p) i = None"
  then show "\<lparr>match_zone = instZone, match_sample = None, match_presetZone = zone\<rparr>
           \<in> set (inst_matches p zone key velocity inst)"
    by (force simp: inst_matches_def)
next
  assume "match_sample m = None"
  then show "play_loop backend key velocity startTime state p stopFunctions (m # ms)
           = (Inl TypeError, p)"
    by simp
qed

theorem getZonesForNote_references_unchecked_witness:
  "dangling dangling_bank 60 100 dangling_zone \<and>
   getZonesForNote dangling_bank (Some (presets dangling_bank ! 0)) 60 100 = Inl TypeError \<and>
   \<lparr>match_zone = missing_sample_zone, match_sample = None, match_presetZone = example_preset_zone\<rparr>
     \<in> set (inst_matches missing_sample_bank example_preset_zone 60 100
              (instruments missing_sample_bank ! 0)) \<and>
   play_loop silent_backend 60 100 (Some 0) initial_channel missing_sample_bank []
     [\<lparr>match_zone = missing_sample_zone, match_sample = None,
       match_presetZone = example_preset_zone\<rparr>] = (Inl TypeError, missing_sample_bank)"
proof -
  let ?m = "\<lparr>match_zone = missing_sample_zone, match_sample = None,
              match_presetZone = example_preset_zone\<rparr>"
  note dang = getZonesForNote_references_unchecked
    [of dangling_bank "presets dangling_bank ! 0" 60 100]
  note miss = getZonesForNote_references_unchecked
    [of missing_sample_bank _ 60 100 missing_sample_zone "instruments missing_sample_bank ! 0"
        9 example_preset_zone ?m silent_backend "Some 0" initial_channel "[]" "[]"]
  have d: "dangling dangling_bank 60 100 dangling_zone"
    by (simp add: dangling_def in_ranges_def js_lookup_def js_index_def example_defs)
  have "dangling_zone \<in> set (preset_zones (presets dangling_bank ! 0))"
    by (simp add: example_defs)
  with d dang have a: "getZonesForNote dangling_bank (Some (presets dangling_bank ! 0)) 60 100
      = Inl TypeError"
    by auto
  have pre: "missing_sample_zone \<in> set (inst_zones (instruments missing_sample_bank ! 0)) \<and>
      in_ranges missing_sample_zone 60 100 \<and> sampleID missing_sample_zone = Some 9 \<and>
      js_index (samples missing_sample_bank) 9 = None"
    by (simp add: in_ranges_def js_index_def example_defs)
  from miss pre have b: "?m \<in> set (inst_matches missing_sample_bank example_preset_zone 60 100
              (instruments missing_sample_bank ! 0))"
    by blast
  from miss have c: "play_loop silent_backend 60 100 (Some 0) initial_channel missing_sample_bank []
     [?m] = (Inl TypeError, missing_sample_bank)"
    by simp
  show ?thesis using d a b c by simp
qed

section \<open>Claim C5: the minimum duration of the time parameters\<close>

text \<open>
  C5. Every envelope and LFO time parameter is to be floored to a positive minimum after
  the conversion from time-cents. The source floors \<^verbatim>\<open>delayVolEnv\<close> and
  \<^verbatim>\<open>attackVolEnv\<close> to \<^verbatim>\<open>minTime = 0.001\<close> and ends with the comment
  \<^verbatim>\<open>// etc for others\<close>: the other ten are passed on as converted. For a zone pair
  without a hold generator the hold time of the volume envelope is its default
  \<open>2^(-12000/1200) = 1/1024\<close>, below the minimum, while the delay is floored.
\<close>

theorem time_fixes_skip_hold:
  "holdVolEnv (fst (resolve_voice (example_samples ! 0) example_inst_zone example_preset_zone
                      100 initial_channel)) = 1 / 1024 \<and>
   (1 / 1024 :: real) < minTime \<and>
   delayVolEnv (fst (resolve_voice (example_samples ! 0) example_inst_zone example_preset_zone
                      100 initial_channel)) = minTime"
  by (simp add: resolve_voice_def apply_generators_def effectiveGens_def add_gen_def
      example_defs defaults_def apply_gen_def default_modulators_def time_fixes_def
      minTime_def Let_def powr_minus powr_numeral)

section \<open>Claim C6: how far the chunk loop advances\<close>




section \<open>Claim C7: the round trip of variable-length quantities\<close>

text \<open>
  C7 says that decoding the variable-length encoding of an integer gives back the integer,
  for every integer that the encoding represents. The encoding represents every natural
  number, and the decoder shifts with \<^verbatim>\<open>value << 7\<close>, a 32-bit operation: the five
  bytes that encode \<open>2^31\<close> decode to \<open>-2^31\<close>.
\<close>

theorem readVLQ_wraps_counterexample:
  "vlq_encode 2147483648 = [CHR 0x88, CHR 0x80, CHR 0x80, CHR 0x80, CHR 0x00] \<and>
   readVLQ (vlq_encode 2147483648) 0 = Inr (- 2147483648, 5) \<and>
   (- 2147483648 :: int) \<noteq> int 2147483648"
proof -
  have c88: "char_of (136 :: nat) = CHR 0x88" and c80: "char_of (128 :: nat) = CHR 0x80"
    and c00: "char_of (0 :: nat) = CHR 0x00"
    by code_simp+
  have enc: "vlq_encode 2147483648 = [CHR 0x88, CHR 0x80, CHR 0x80, CHR 0x80, CHR 0x00]"
    by (simp add: vlq_encode_def vlq_cont.simps c88 c80 c00)
  have dec: "readVLQ [CHR 0x88, CHR 0x80, CHR 0x80, CHR 0x80, CHR 0x00] 0
      = Inr (- 2147483648, 5)"
    by code_simp
  show ?thesis by (simp add: enc dec)
qed

text \<open>
  C7, amended. For every integer below \<open>2^31\<close>, decoding its variable-length encoding
  gives back the integer and the number of bytes of the encoding, wherever the encoding
  stands in the buffer and whatever follows it. The range includes every value that a
  Standard MIDI File can hold, \<open>0 .. 0x0FFFFFFF\<close> in at most four bytes. The instances
  \<open>0\<close> as \<open>0x00\<close> and \<open>128\<close> as \<open>0x81 0x00\<close> follow the theorem.
\<close>

theorem readVLQ_roundtrip:
  assumes "v < 2 ^ 31"
  shows "readVLQ (pre @ vlq_encode v @ rest) (length pre) = Inr (int v, length (vlq_encode v))"
proof -
  let ?q = "v div 128"
  let ?k = "length (vlq_cont ?q)"
  let ?c = "char_of (v mod 128) :: char"
  let ?view = "pre @ vlq_cont ?q @ (?c # rest)"
  have view_eq: "pre @ vlq_encode v @ rest = ?view"
    by (simp add: vlq_encode_def)
  have split: "int ?q * 128 + int (v mod 128) = int v"
    by (simp add: zmod_int zdiv_int)
  have "int v < 2147483648" using assms by simp
  then have small: "int ?q * 128 < 2147483648" using split by linarith
  have "readVLQ_loop ?view (length pre) 0 0 =
        readVLQ_loop ?view (length pre) (0 * 128 ^ ?k + int ?q) (0 + ?k)"
    by (rule readVLQ_loop_cont) (use small in simp_all)
  also have "\<dots> = Inr (int v, ?k + 1)"
  proof -
    have byte: "getUint8 ?view (length pre + ?k) = Inr (v mod 128)"
      by (simp add: getUint8_def byte_at_def nth_append)
    show ?thesis
      by (subst readVLQ_loop.simps)
         (simp add: byte and_127_last and_128_last js_shl_7 [OF _ small] split)
  qed
  finally show ?thesis
    by (simp add: readVLQ_def view_eq vlq_encode_def)
qed

theorem readVLQ_roundtrip_witness:
  "vlq_encode 0 = [CHR 0x00] \<and> readVLQ [CHR 0x00] 0 = Inr (0, 1) \<and>
   vlq_encode 128 = [CHR 0x81, CHR 0x00] \<and> readVLQ [CHR 0x81, CHR 0x00] 0 = Inr (128, 2)"
proof -
  have e0: "vlq_encode 0 = [CHR 0x00]" by code_simp
  have e128: "vlq_encode 128 = [CHR 0x81, CHR 0x00]" by code_simp
  have b0: "(0::nat) < 2 ^ 31" and b128: "(128::nat) < 2 ^ 31" by simp_all
  have d0: "readVLQ [CHR 0x00] 0 = Inr (0, 1)"
    using readVLQ_roundtrip [OF b0, of "[]" "[]"] by (simp add: e0)
  have d128: "readVLQ [CHR 0x81, CHR 0x00] 0 = Inr (128, 2)"
    using readVLQ_roundtrip [OF b128, of "[]" "[]"] by (simp add: e128)
  show ?thesis using e0 e128 d0 d128 by simp
qed

section \<open>Claim C8: the terminal record of the header tables\<close>

text \<open>
  C8. When the parse succeeds and the preset header table has \<open>n\<close> records of 38 bytes,
  the parser has \<open>n - 1\<close> presets: preset \<open>i\<close> is read from record \<open>i\<close>, and its number
  of zones is the bag index of record \<open>i + 1\<close> minus its own, so that the terminal record
  serves the last preset and is no preset itself. The same holds for the instrument header
  table, with records of 22 bytes. In the example a table of \<open>38 * 5\<close> bytes gives four
  presets.
\<close>

theorem parse_excludes_sentinel:
  assumes "parse v r = Inr p"
    and "map_of r ''sfbk'' = Some sfbk"
    and "get_prop (Some sfbk) ''pdta'' = Inr pdta"
  shows "(get_prop pdta ''phdr'' = Inr (Some (Leaf d (38 * n))) \<longrightarrow>
            length (presets p) = n - 1 \<and>
            (\<forall>i < n - 1. \<exists>bag next.
                readString v (d + i * 38) 20 = Inr (preset_name (presets p ! i)) \<and>
                getUint16 v (d + i * 38 + 24) True = Inr bag \<and>
                getUint16 v (d + (i + 1) * 38 + 24) True = Inr next \<and>
                length (preset_zones (presets p ! i)) = nat (int next - int bag)))
       \<and> (get_prop pdta ''inst'' = Inr (Some (Leaf d' (22 * m))) \<longrightarrow>
            length (instruments p) = m - 1 \<and>
            (\<forall>i < m - 1. \<exists>bag next.
                readString v (d' + i * 22) 20 = Inr (inst_name (instruments p ! i)) \<and>
                getUint16 v (d' + i * 22 + 20) True = Inr bag \<and>
                getUint16 v (d' + (i + 1) * 22 + 20) True = Inr next \<and>
                length (inst_zones (instruments p ! i)) = nat (int next - int bag)))"
proof (intro conjI impI)
  assume phdr: "get_prop pdta ''phdr'' = Inr (Some (Leaf d (38 * n)))"
  from assms(1) obtain pbag pgen where
    loop: "for_loop (iterations (js_minus (js_div (Some (38 * n)) 38) 1))
             (\<lambda>i. and_then (prop_dataOffset (Some (Leaf d (38 * n))))
                    (\<lambda>d. read_preset v d pbag pgen i)) = Inr (presets p)"
    by (rule parse_presets) (use assms(2,3) phdr in \<open>auto simp: prop_size_def\<close>)
  have count: "iterations (js_minus (js_div (Some (38 * n)) 38) 1) = n - 1"
    by (rule iterations_records) simp
  show "length (presets p) = n - 1"
    using for_loop_length [OF loop] count by simp
  show "\<forall>i < n - 1. \<exists>bag next.
          readString v (d + i * 38) 20 = Inr (preset_name (presets p ! i)) \<and>
          getUint16 v (d + i * 38 + 24) True = Inr bag \<and>
          getUint16 v (d + (i + 1) * 38 + 24) True = Inr next \<and>
          length (preset_zones (presets p ! i)) = nat (int next - int bag)"
  proof (intro allI impI)
    fix i assume "i < n - 1"
    then have "read_preset v (Some d) pbag pgen i = Inr (presets p ! i)"
      using for_loop_nth [OF loop, of i] count by (simp add: prop_dataOffset_def)
    from read_preset_zones [OF this] show "\<exists>bag next.
          readString v (d + i * 38) 20 = Inr (preset_name (presets p ! i)) \<and>
          getUint16 v (d + i * 38 + 24) True = Inr bag \<and>
          getUint16 v (d + (i + 1) * 38 + 24) True = Inr next \<and>
          length (preset_zones (presets p ! i)) = nat (int next - int bag)"
      by blast
  qed
next
  assume inst: "get_prop pdta ''inst'' = Inr (Some (Leaf d' (22 * m)))"
  from assms(1) obtain ibag igen where
    loop: "for_loop (iterations (js_minus (js_div (Some (22 * m)) 22) 1))
             (\<lambda>i. and_then (prop_dataOffset (Some (Leaf d' (22 * m))))
                    (\<lambda>d. read_instrument v d ibag igen i)) = Inr (instruments p)"
    by (rule parse_instruments) (use assms(2,3) inst in \<open>auto simp: prop_size_def\<close>)
  have count: "iterations (js_minus (js_div (Some (22 * m)) 22) 1) = m - 1"
    by (rule iterations_records) simp
  show "length (instruments p) = m - 1"
    using for_loop_length [OF loop] count by simp
  show "\<forall>i < m - 1. \<exists>bag next.
          readString v (d' + i * 22) 20 = Inr (inst_name (instruments p ! i)) \<and>
          getUint16 v (d' + i * 22 + 20) True = Inr bag \<and>
          getUint16 v (d' + (i + 1) * 22 + 20) True = Inr next \<and>
          length (inst_zones (instruments p ! i)) = nat (int next - int bag)"
  proof (intro allI impI)
    fix i assume "i < m - 1"
    then have "read_instrument v (Some d') ibag igen i = Inr (instruments p ! i)"
      using for_loop_nth [OF loop, of i] count by (simp add: prop_dataOffset_def)
    from read_instrument_zones [OF this] show "\<exists>bag next.
          readString v (d' + i * 22) 20 = Inr (inst_name (instruments p ! i)) \<and>
          getUint16 v (d' + i * 22 + 20) True = Inr bag \<and>
          getUint16 v (d' + (i + 1) * 22 + 20) True = Inr next \<and>
          length (inst_zones (instruments p ! i)) = nat (int next - int bag)"
      by blast
  qed
qed

theorem parse_excludes_sentinel_witness:
  "new_SoundFontParser example_sf2 = Inr example_bank \<and>
   get_prop (map_of example_riff ''sfbk'') ''pdta''
     = Inr (Some (Chunks
           [(''phdr'', Leaf 60 (38 * 5)), (''pbag'', Leaf 258 8), (''pmod'', Leaf 274 10),
            (''pgen'', Leaf 292 12), (''inst'', Leaf 312 (22 * 2)), (''ibag'', Leaf 364 8),
            (''imod'', Leaf 380 10), (''igen'', Leaf 398 12), (''shdr'', Leaf 418 92)])) \<and>
   length (presets example_bank) = 4 \<and> length (instruments example_bank) = 1"
proof -
  let ?sfbk = "Chunks
        [(''sdta'', Chunks [(''smpl'', Leaf 32 8)]),
         (''pdta'',
          Chunks
           [(''phdr'', Leaf 60 190), (''pbag'', Leaf 258 8), (''pmod'', Leaf 274 10),
            (''pgen'', Leaf 292 12), (''inst'', Leaf 312 44), (''ibag'', Leaf 364 8),
            (''imod'', Leaf 380 10), (''igen'', Leaf 398 12), (''shdr'', Leaf 418 92)])]"
  let ?pdta = "Some (Chunks
           [(''phdr'', Leaf 60 190), (''pbag'', Leaf 258 8), (''pmod'', Leaf 274 10),
            (''pgen'', Leaf 292 12), (''inst'', Leaf 312 44), (''ibag'', Leaf 364 8),
            (''imod'', Leaf 380 10), (''igen'', Leaf 398 12), (''shdr'', Leaf 418 92)])"
  have chunks: "parseRIFF example_sf2 0 (length example_sf2) = Inr example_riff" by code_simp
  have run: "parse example_sf2 example_riff = Inr example_bank" by code_simp
  have new: "new_SoundFontParser example_sf2 = Inr example_bank"
    by (simp add: new_SoundFontParser_def chunks run)
  have sfbk: "map_of example_riff ''sfbk'' = Some ?sfbk" by (simp add: example_riff_def)
  have pdta: "get_prop (Some ?sfbk) ''pdta'' = Inr ?pdta" by (simp add: get_prop_def)
  have phdr: "get_prop ?pdta ''phdr'' = Inr (Some (Leaf 60 (38 * 5)))"
    by (simp add: get_prop_def)
  have inst: "get_prop ?pdta ''inst'' = Inr (Some (Leaf 312 (22 * 2)))"
    by (simp add: get_prop_def)
  have "length (presets example_bank) = 4 \<and> length (instruments example_bank) = 1"
    using parse_excludes_sentinel [OF run sfbk pdta, of 60 5 312 2] phdr inst by simp
  then show ?thesis using new sfbk pdta by simp
qed

section \<open>Claim C9: a note-off during the scheduling pass\<close>



text \<open>
  The second example file, played on the example bank: the note-off of key 60 calls the
  closure of the note at 0.5 seconds (480 ticks at 480 ticks per quarter note and 500000
  microseconds per quarter note), and the note-off of key 62 calls nothing.
\<close>

lemma playMIDI_example:
  "map_sum id stopped (playMIDI silent_backend silent_stopper example_bank 0 example_midi)
     = Inr [([()], Some (1 / 2))]"
proof -
  have "playMIDI silent_backend silent_stopper example_bank 0 example_midi =
      run_events silent_backend silent_stopper 480 (initial_scheduler example_bank 0)
        [(0, example_events ! 0), (480, example_events ! 1), (480, example_events ! 2),
         (480, example_events ! 3)]"
    by (simp add: playMIDI_def parse_example_midi timeline_example)
  then show ?thesis
    by (simp add: example_events_def
      dispatch_def note_on_def note_off_def advance_def initial_scheduler_def initial_channel_def
      playNote_def getZonesForNote_def preset_zone_step_def inst_matches_def in_ranges_def
      js_lookup_def js_index_def example_defs silent_backend_def silent_stopper_def Let_def
      resolve_voice_def apply_generators_def effectiveGens_def add_gen_def apply_gen_def
      build_buffer_def stereo_pair_def new_Float32Array_def sample_value_def
      for_loop_def upt_rec)
qed

section \<open>Claim C10: the state at the start of a scheduling pass\<close>

text \<open>
  C10. \<^verbatim>\<open>playMIDI\<close> runs the events of the file from the initial state, in which each of
  the sixteen channels has bank 0, preset 0, volume 127, expression 127, pan 64,
  modulation 0 and pitch bend 0, and no channel holds a closure for any note.
\<close>

theorem playMIDI_initial_state:
  "channelState (initial_scheduler p now :: 'v Scheduler) =
     replicate 16 \<lparr>ch_bank = 0, ch_preset = 0, ch_volume = 127, ch_expression = 127,
                   ch_pan = 64, ch_mod = 0, ch_pitchBend = 0\<rparr>
   \<and> activeNotes (initial_scheduler p now :: 'v Scheduler) = replicate 16 Map.empty
   \<and> playMIDI backend stopper p now midiBuffer =
       and_then (parseMIDI midiBuffer) (\<lambda>midi.
         run_events backend stopper (midi_division midi)
           (initial_scheduler p now :: 'v Scheduler) (timeline midi))"
  by (simp add: initial_scheduler_def initial_channel_def playMIDI_def)

theorem playMIDI_initial_state_witness:
  "playMIDI silent_backend silent_stopper example_bank 0 header_midi
     = Inr (initial_scheduler example_bank 0) \<and>
   channelState (initial_scheduler example_bank 0 :: unit Scheduler) =
     replicate 16 \<lparr>ch_bank = 0, ch_preset = 0, ch_volume = 127, ch_expression = 127,
                   ch_pan = 64, ch_mod = 0, ch_pitchBend = 0\<rparr> \<and>
   activeNotes (initial_scheduler example_bank 0 :: unit Scheduler) = replicate 16 Map.empty"
  using playMIDI_initial_state [of example_bank 0 silent_backend silent_stopper header_midi]
  by (simp add: parse_header_midi timeline_def)

end
